theory Spec2Isabelle
  imports Main "HOL-Library.Multiset"
begin

section \<open>Python values, exceptions and the SQS payload\<close>

text \<open>
  The scalar Python values that occur as JSON field values, as job metadata and as tag
  values. Field values that are arrays, objects or non-integer numbers are outside the
  model: the payload's fields are ids and names.
\<close>

datatype pyval = PNone | PBool bool | PInt int | PStr string

fun truthy :: "pyval \<Rightarrow> bool" where
  "truthy PNone = False"
| "truthy (PBool b) = b"
| "truthy (PInt n) = (n \<noteq> 0)"
| "truthy (PStr s) = (s \<noteq> [])"

definition digit_char :: "nat \<Rightarrow> char" where
  "digit_char d = char_of (48 + d)"

function str_nat :: "nat \<Rightarrow> string" where
  "str_nat n = (if n < 10 then [digit_char n]
                else str_nat (n div 10) @ [digit_char (n mod 10)])"
  by pat_completeness auto
termination
  by (relation "measure id") auto

declare str_nat.simps [simp del]

text \<open>Python's \<open>str(v)\<close>, which is also what an f-string renders.\<close>

fun py_str :: "pyval \<Rightarrow> string" where
  "py_str PNone = ''None''"
| "py_str (PBool b) = (if b then ''True'' else ''False'')"
| "py_str (PInt n) = (if n < 0 then CHR ''-'' # str_nat (nat (- n)) else str_nat (nat n))"
| "py_str (PStr s) = s"

text \<open>
  The exceptions the three modules raise or meet. \<open>ClientError\<close> carries the code read
  by \<open>e.response.get('Error', {}).get('Code', '')\<close> (the empty string when absent) and
  the text of \<open>str(e)\<close>; the other constructors carry their message.
\<close>

datatype exn =
    ClientError string string
  | ScaleError string
  | ValueError string
  | KeyError string
  | JSONDecodeError string
  | AttributeError string
  | OtherException string

fun exn_str :: "exn \<Rightarrow> string" where
  "exn_str (ClientError c t) = t"
| "exn_str (ScaleError m) = m"
| "exn_str (ValueError m) = m"
| "exn_str (KeyError k) = [CHR 0x27] @ k @ [CHR 0x27]"
| "exn_str (JSONDecodeError m) = m"
| "exn_str (AttributeError m) = m"
| "exn_str (OtherException m) = m"

text \<open>
  What a boto3 call can raise: a \<open>ClientError\<close> (the service answered with an error
  code) or any other exception of botocore (connection, parameter validation). The
  module's own \<open>ScaleError\<close> is not among them.
\<close>

datatype api_error = ApiClientError string string | ApiOtherError string

fun raise_api :: "api_error \<Rightarrow> exn" where
  "raise_api (ApiClientError c t) = ClientError c t"
| "raise_api (ApiOtherError t) = OtherException t"

text \<open>
  The body of an SQS record is a string; \<open>json.loads\<close> is a library function and is
  represented by its result: the text is rejected (\<open>NotJson\<close>), or parses to an object
  (\<open>JsonObject\<close>, the resulting dict), or parses to some other JSON value (\<open>JsonOther\<close>).
\<close>

datatype payload = NotJson string | JsonObject "(string \<times> pyval) list" | JsonOther

record sqs_record =
  messageId :: "string option"
  body :: "payload option"

type_synonym job_info = "(string \<times> pyval) list"

definition dict_get :: "(string \<times> pyval) list \<Rightarrow> string \<Rightarrow> pyval" where
  "dict_get d k = (case map_of d k of None \<Rightarrow> PNone | Some v \<Rightarrow> v)"

text \<open>The \<open>try\<close> block of \<open>parse_sqs_message\<close> (the same code in both scale-up modules).\<close>

definition parse_sqs_message_try :: "sqs_record \<Rightarrow> exn + job_info" where
  "parse_sqs_message_try record =
     (case body record of
        None \<Rightarrow> Inl (KeyError ''body'')
      | Some (NotJson t) \<Rightarrow> Inl (JSONDecodeError t)
      | Some JsonOther \<Rightarrow> Inl (AttributeError ''object has no attribute get'')
      | Some (JsonObject b) \<Rightarrow>
          Inr [(''workflow_job_id'', dict_get b ''id''),
               (''repository'',
                  PStr (py_str (dict_get b ''repositoryOwner'') @ ''/'' @
                        py_str (dict_get b ''repositoryName''))),
               (''event_type'', dict_get b ''eventType''),
               (''installation_id'', dict_get b ''installationId'')])"

text \<open>\<open>except (json.JSONDecodeError, KeyError)\<close>: log and return the empty dict.\<close>

definition parse_sqs_message :: "sqs_record \<Rightarrow> exn + job_info" where
  "parse_sqs_message record =
     (case parse_sqs_message_try record of
        Inl (JSONDecodeError t) \<Rightarrow> Inr []
      | Inl (KeyError k) \<Rightarrow> Inr []
      | r \<Rightarrow> r)"

section \<open>Configuration\<close>

text \<open>
  The module-level settings read from the process environment. \<open>split_commas\<close> is
  Python's \<open>s.split(',')\<close>, which never returns the empty list.
\<close>

record config =
  ENVIRONMENT :: string
  LAUNCH_TEMPLATE_NAME :: "string option"
  SUBNET_IDS :: "string list"
  INSTANCE_TYPE :: "string option"
  RUNNER_NAME_PREFIX :: string
  SSM_CONFIG_PATH :: "string option"

fun split_commas :: "string \<Rightarrow> string list" where
  "split_commas [] = [[]]"
| "split_commas (c # cs) =
     (if c = CHR '','' then [] # split_commas cs
      else (case split_commas cs of
              [] \<Rightarrow> [[c]]
            | w # ws \<Rightarrow> (c # w) # ws))"

definition environ_get :: "(string \<times> string) list \<Rightarrow> string \<Rightarrow> string \<Rightarrow> string" where
  "environ_get env k d = (case map_of env k of None \<Rightarrow> d | Some v \<Rightarrow> v)"

definition p4d_config :: "(string \<times> string) list \<Rightarrow> config" where
  "p4d_config env =
     \<lparr>ENVIRONMENT = environ_get env ''ENVIRONMENT'' ''flashinfer'',
      LAUNCH_TEMPLATE_NAME = map_of env ''LAUNCH_TEMPLATE_NAME'',
      SUBNET_IDS = split_commas (environ_get env ''SUBNET_IDS'' ''''),
      INSTANCE_TYPE = Some (environ_get env ''INSTANCE_TYPE'' ''p4d.24xlarge''),
      RUNNER_NAME_PREFIX = environ_get env ''RUNNER_NAME_PREFIX'' ''flashinfer-p4d-'',
      SSM_CONFIG_PATH = map_of env ''SSM_CONFIG_PATH''\<rparr>"

definition cb_config :: "(string \<times> string) list \<Rightarrow> config" where
  "cb_config env =
     \<lparr>ENVIRONMENT = environ_get env ''ENVIRONMENT'' ''flashinfer'',
      LAUNCH_TEMPLATE_NAME = map_of env ''LAUNCH_TEMPLATE_NAME'',
      SUBNET_IDS = split_commas (environ_get env ''SUBNET_IDS'' ''''),
      INSTANCE_TYPE = map_of env ''INSTANCE_TYPE'',
      RUNNER_NAME_PREFIX = environ_get env ''RUNNER_NAME_PREFIX'' ''flashinfer-cb-'',
      SSM_CONFIG_PATH = map_of env ''SSM_CONFIG_PATH''\<rparr>"

text \<open>Python's \<open>not s\<close> for an optional string: \<open>None\<close> and the empty string are falsy.\<close>

fun falsy_str :: "string option \<Rightarrow> bool" where
  "falsy_str None = True"
| "falsy_str (Some s) = (s = [])"

fun opt_val :: "string option \<Rightarrow> pyval" where
  "opt_val None = PNone"
| "opt_val (Some s) = PStr s"

section \<open>The EC2 client and the world it acts on\<close>

type_synonym tag = "string \<times> pyval"

type_synonym ec2_filter = "string \<times> string list"

record market_options =
  MarketType :: string
  SpotOptions :: "(string \<times> string) list"

record run_instances_request =
  req_LaunchTemplateName :: "string option"
  req_LaunchTemplateVersion :: string
  req_InstanceType :: "string option"
  req_SubnetId :: string
  req_MinCount :: int
  req_MaxCount :: int
  req_InstanceMarketOptions :: "market_options option"
  req_CapacityReservationId :: "string option"
  req_InstanceTags :: "tag list"
  req_VolumeTags :: "tag list"

datatype datetime = Datetime string

fun isoformat :: "datetime \<Rightarrow> string" where
  "isoformat (Datetime s) = s"

text \<open>
  One entry of the \<open>CapacityReservations\<close> list of the provider's answer. The fields the
  code reads with \<open>cr[...]\<close> are always present in the provider's answer; those it reads
  with \<open>cr.get(...)\<close> are optional.
\<close>

record capacity_reservation =
  CapacityReservationId :: string
  State :: string
  InstanceType :: string
  AvailabilityZone :: string
  ReservationType :: "string option"
  AvailableInstanceCount :: "int option"
  TotalInstanceCount :: "int option"
  StartDate :: "datetime option"
  EndDate :: "datetime option"

datatype api_call =
    RunInstances run_instances_request
  | DescribeCapacityReservations "ec2_filter list"
  | DescribeSubnets "string list" "ec2_filter list"

text \<open>
  The provider is outside the program: each operation is an oracle that answers from
  the calls made so far and the request. \<open>run_instances\<close> answers with
  \<open>response['Instances'][0]['InstanceId']\<close>, \<open>describe_capacity_reservations\<close> with the
  \<open>CapacityReservations\<close> key of the response (\<open>None\<close> when the key is absent),
  \<open>describe_subnets\<close> with the \<open>SubnetId\<close> of each entry of \<open>Subnets\<close>.
\<close>

record ec2_client =
  run_instances :: "api_call list \<Rightarrow> run_instances_request \<Rightarrow> api_error + string"
  describe_capacity_reservations ::
    "api_call list \<Rightarrow> ec2_filter list \<Rightarrow> api_error + capacity_reservation list option"
  describe_subnets ::
    "api_call list \<Rightarrow> string list \<Rightarrow> ec2_filter list \<Rightarrow> api_error + string list"

text \<open>
  The world: the provider calls made so far, oldest first, and the number of draws taken
  from the random source.
\<close>

record world =
  calls :: "api_call list"
  draws :: nat

definition call_run_instances ::
  "ec2_client \<Rightarrow> run_instances_request \<Rightarrow> world \<Rightarrow> (exn + string) \<times> world" where
  "call_run_instances ec2 req w =
     ((case run_instances ec2 (calls w) req of
         Inl e \<Rightarrow> Inl (raise_api e)
       | Inr instance_id \<Rightarrow> Inr instance_id),
      w\<lparr>calls := calls w @ [RunInstances req]\<rparr>)"

section \<open>p4d-scale-up: spot instances with on-demand fallback\<close>

definition SPOT_FAILOVER_ERRORS :: "string list" where
  "SPOT_FAILOVER_ERRORS =
     [''InsufficientInstanceCapacity'', ''SpotMaxPriceTooLow'', ''MaxSpotInstanceCountExceeded'']"

definition RETRY_ERRORS :: "string list" where
  "RETRY_ERRORS = [''RequestLimitExceeded'', ''ServiceUnavailable'']"

definition build_tags :: "config \<Rightarrow> job_info \<Rightarrow> string \<Rightarrow> tag list" where
  "build_tags cfg job_info market_type =
     [(''Name'', PStr (ENVIRONMENT cfg @ ''-p4d-action-runner'')),
      (''ghr:Application'', PStr ''github-action-runner''),
      (''ghr:created_by'', PStr ''p4d-scale-up-lambda''),
      (''ghr:environment'', PStr (ENVIRONMENT cfg)),
      (''ghr:runner_name_prefix'', PStr (RUNNER_NAME_PREFIX cfg)),
      (''ghr:ssm_config_path'', opt_val (SSM_CONFIG_PATH cfg)),
      (''ghr:market_type'', PStr market_type),
      (''Environment'', PStr (ENVIRONMENT cfg)),
      (''Project'', PStr ''FlashInfer''),
      (''ManagedBy'', PStr ''Terraform'')]
     @ (if truthy (dict_get job_info ''repository'')
        then [(''ghr:repository'', dict_get job_info ''repository'')] else [])
     @ (if truthy (dict_get job_info ''workflow_job_id'')
        then [(''ghr:workflow_job_id'', PStr (py_str (dict_get job_info ''workflow_job_id'')))]
        else [])"

definition spot_request :: "config \<Rightarrow> string \<Rightarrow> job_info \<Rightarrow> run_instances_request" where
  "spot_request cfg subnet_id job_info =
     \<lparr>req_LaunchTemplateName = LAUNCH_TEMPLATE_NAME cfg,
      req_LaunchTemplateVersion = ''$Latest'',
      req_InstanceType = INSTANCE_TYPE cfg,
      req_SubnetId = subnet_id,
      req_MinCount = 1,
      req_MaxCount = 1,
      req_InstanceMarketOptions =
        Some \<lparr>MarketType = ''spot'',
              SpotOptions = [(''SpotInstanceType'', ''one-time''),
                             (''InstanceInterruptionBehavior'', ''terminate'')]\<rparr>,
      req_CapacityReservationId = None,
      req_InstanceTags = build_tags cfg job_info ''spot'',
      req_VolumeTags = build_tags cfg job_info ''spot''\<rparr>"

definition launch_spot_instance ::
  "config \<Rightarrow> ec2_client \<Rightarrow> string \<Rightarrow> job_info \<Rightarrow> world \<Rightarrow> (exn + string) \<times> world" where
  "launch_spot_instance cfg ec2 subnet_id job_info w =
     call_run_instances ec2 (spot_request cfg subnet_id job_info) w"

definition ondemand_request :: "config \<Rightarrow> string \<Rightarrow> job_info \<Rightarrow> run_instances_request" where
  "ondemand_request cfg subnet_id job_info =
     \<lparr>req_LaunchTemplateName = LAUNCH_TEMPLATE_NAME cfg,
      req_LaunchTemplateVersion = ''$Latest'',
      req_InstanceType = INSTANCE_TYPE cfg,
      req_SubnetId = subnet_id,
      req_MinCount = 1,
      req_MaxCount = 1,
      req_InstanceMarketOptions = None,
      req_CapacityReservationId = None,
      req_InstanceTags = build_tags cfg job_info ''on-demand'',
      req_VolumeTags = build_tags cfg job_info ''on-demand''\<rparr>"

definition launch_ondemand_instance ::
  "config \<Rightarrow> ec2_client \<Rightarrow> string \<Rightarrow> job_info \<Rightarrow> world \<Rightarrow> (exn + string) \<times> world" where
  "launch_ondemand_instance cfg ec2 subnet_id job_info w =
     call_run_instances ec2 (ondemand_request cfg subnet_id job_info) w"

text \<open>
  \<open>random.choice\<close> draws from the random source \<open>rnd\<close>: the k-th draw picks the entry at
  index \<open>rnd k mod length\<close>.
\<close>

definition pick_subnet :: "config \<Rightarrow> (nat \<Rightarrow> nat) \<Rightarrow> world \<Rightarrow> (exn + string) \<times> world" where
  "pick_subnet cfg rnd w =
     (let valid_subnets = filter (\<lambda>s. s \<noteq> []) (SUBNET_IDS cfg)
      in if valid_subnets = [] then (Inl (ScaleError ''No valid subnets configured''), w)
         else (Inr (valid_subnets ! (rnd (draws w) mod length valid_subnets)),
               w\<lparr>draws := Suc (draws w)\<rparr>))"

text \<open>
  The handler's \<open>except ClientError as e2\<close> around the on-demand launch: a code of
  \<open>RETRY_ERRORS\<close> becomes a \<open>ScaleError\<close>, any other \<open>ClientError\<close> is raised again, and
  an exception that is no \<open>ClientError\<close> passes through.
\<close>

definition p4d_ondemand_failover ::
  "config \<Rightarrow> ec2_client \<Rightarrow> string \<Rightarrow> job_info \<Rightarrow> world \<Rightarrow> (exn + string \<times> string) \<times> world" where
  "p4d_ondemand_failover cfg ec2 subnet_id job_info w =
     (case launch_ondemand_instance cfg ec2 subnet_id job_info w of
        (Inr instance_id, w') \<Rightarrow> (Inr (instance_id, ''on-demand''), w')
      | (Inl (ClientError error_code2 t2), w') \<Rightarrow>
          if error_code2 \<in> set RETRY_ERRORS
          then (Inl (ScaleError (''Retryable error: '' @ error_code2)), w')
          else (Inl (ClientError error_code2 t2), w')
      | (Inl e2, w') \<Rightarrow> (Inl e2, w'))"

text \<open>The spot attempt with its \<open>except ClientError as e\<close>.\<close>

definition p4d_launch ::
  "config \<Rightarrow> ec2_client \<Rightarrow> string \<Rightarrow> job_info \<Rightarrow> world \<Rightarrow> (exn + string \<times> string) \<times> world" where
  "p4d_launch cfg ec2 subnet_id job_info w =
     (case launch_spot_instance cfg ec2 subnet_id job_info w of
        (Inr instance_id, w') \<Rightarrow> (Inr (instance_id, ''spot''), w')
      | (Inl (ClientError error_code t), w') \<Rightarrow>
          if error_code \<in> set SPOT_FAILOVER_ERRORS
          then p4d_ondemand_failover cfg ec2 subnet_id job_info w'
          else if error_code \<in> set RETRY_ERRORS
          then (Inl (ScaleError (''Retryable error: '' @ error_code)), w')
          else (Inl (ClientError error_code t), w')
      | (Inl e, w') \<Rightarrow> (Inl e, w'))"

text \<open>The body of the outer \<open>try\<close> of the loop, up to the append to \<open>results['successful']\<close>.\<close>

definition p4d_try_record ::
  "config \<Rightarrow> ec2_client \<Rightarrow> (nat \<Rightarrow> nat) \<Rightarrow> sqs_record \<Rightarrow> world
     \<Rightarrow> (exn + string \<times> string) \<times> world" where
  "p4d_try_record cfg ec2 rnd record w =
     (case parse_sqs_message record of
        Inl e \<Rightarrow> (Inl e, w)
      | Inr job_info \<Rightarrow>
          (case pick_subnet cfg rnd w of
             (Inl e, w1) \<Rightarrow> (Inl e, w1)
           | (Inr subnet_id, w1) \<Rightarrow> p4d_launch cfg ec2 subnet_id job_info w1))"

record p4d_success =
  message_id :: string
  instance_id :: string
  market_type :: string

record failure =
  failed_message_id :: string
  error :: string
  retry :: bool

record 's results =
  successful :: "'s list"
  failed :: "failure list"

text \<open>
  The handler's answer. \<open>response_body\<close> is the \<open>results\<close> dict before \<open>json.dumps\<close>;
  \<open>batchItemFailures\<close> lists the \<open>itemIdentifier\<close> of each entry.
\<close>

record 's response =
  statusCode :: int
  response_body :: "'s results"
  batchItemFailures :: "string list"

definition record_message_id :: "sqs_record \<Rightarrow> string" where
  "record_message_id record = (case messageId record of None \<Rightarrow> ''unknown'' | Some m \<Rightarrow> m)"

text \<open>The two \<open>except\<close> clauses of the loop body: \<open>ScaleError\<close> first, then \<open>Exception\<close>.\<close>

fun record_failure :: "string \<Rightarrow> exn \<Rightarrow> failure" where
  "record_failure mid (ScaleError m) =
     \<lparr>failed_message_id = mid, error = exn_str (ScaleError m), retry = True\<rparr>"
| "record_failure mid e = \<lparr>failed_message_id = mid, error = exn_str e, retry = False\<rparr>"

definition p4d_process_record ::
  "config \<Rightarrow> ec2_client \<Rightarrow> (nat \<Rightarrow> nat) \<Rightarrow> p4d_success results \<times> world \<Rightarrow> sqs_record
     \<Rightarrow> p4d_success results \<times> world" where
  "p4d_process_record cfg ec2 rnd st record =
     (let results = fst st; w = snd st; mid = record_message_id record
      in case p4d_try_record cfg ec2 rnd record w of
           (Inr (iid, mt), w') \<Rightarrow>
             (results\<lparr>successful := successful results @
                 [\<lparr>message_id = mid, instance_id = iid, market_type = mt\<rparr>]\<rparr>, w')
         | (Inl e, w') \<Rightarrow>
             (results\<lparr>failed := failed results @ [record_failure mid e]\<rparr>, w'))"

record event =
  Records :: "sqs_record list option"

definition event_records :: "event \<Rightarrow> sqs_record list" where
  "event_records ev = (case Records ev of None \<Rightarrow> [] | Some rs \<Rightarrow> rs)"

definition batch_item_failures :: "failure list \<Rightarrow> string list" where
  "batch_item_failures fs = map failed_message_id (filter retry fs)"

definition p4d_handler ::
  "config \<Rightarrow> ec2_client \<Rightarrow> (nat \<Rightarrow> nat) \<Rightarrow> event \<Rightarrow> world
     \<Rightarrow> (exn + p4d_success response) \<times> world" where
  "p4d_handler cfg ec2 rnd ev w =
     (if falsy_str (LAUNCH_TEMPLATE_NAME cfg)
      then (Inl (ValueError ''LAUNCH_TEMPLATE_NAME environment variable is required''), w)
      else if SUBNET_IDS cfg = [] \<or> SUBNET_IDS cfg = [[]]
      then (Inl (ValueError ''SUBNET_IDS environment variable is required''), w)
      else
        (let st = foldl (p4d_process_record cfg ec2 rnd)
                    (\<lparr>successful = [], failed = []\<rparr>, w) (event_records ev)
         in (Inr \<lparr>statusCode = 200,
                  response_body = fst st,
                  batchItemFailures = batch_item_failures (failed (fst st))\<rparr>,
             snd st)))"

section \<open>cb-scale-up: launches bound to a Capacity Block\<close>

record cb_info =
  cb_id :: string
  cb_az :: string
  cb_available :: int

definition available_count :: "capacity_reservation \<Rightarrow> int" where
  "available_count cr = (case AvailableInstanceCount cr of None \<Rightarrow> 0 | Some n \<Rightarrow> n)"

text \<open>The loop over the reservations of the answer: the first one that passes returns.\<close>

fun first_capacity_block :: "capacity_reservation list \<Rightarrow> cb_info option" where
  "first_capacity_block [] = None"
| "first_capacity_block (cr # crs) =
     (if ReservationType cr = Some ''capacity-block'' \<and> available_count cr > 0
      then Some \<lparr>cb_id = CapacityReservationId cr,
                 cb_az = AvailabilityZone cr,
                 cb_available = available_count cr\<rparr>
      else first_capacity_block crs)"

definition cb_filters :: "string \<Rightarrow> ec2_filter list" where
  "cb_filters instance_type = [(''state'', [''active'']), (''instance-type'', [instance_type])]"

definition find_active_capacity_block ::
  "ec2_client \<Rightarrow> string \<Rightarrow> world \<Rightarrow> (exn + cb_info option) \<times> world" where
  "find_active_capacity_block ec2 instance_type w =
     ((case describe_capacity_reservations ec2 (calls w) (cb_filters instance_type) of
         Inl e \<Rightarrow> Inl (raise_api e)
       | Inr response \<Rightarrow>
           Inr (first_capacity_block (case response of None \<Rightarrow> [] | Some crs \<Rightarrow> crs))),
      w\<lparr>calls := calls w @ [DescribeCapacityReservations (cb_filters instance_type)]\<rparr>)"

definition az_filters :: "string \<Rightarrow> ec2_filter list" where
  "az_filters az = [(''availability-zone'', [az])]"

definition find_subnet_in_az ::
  "config \<Rightarrow> ec2_client \<Rightarrow> string \<Rightarrow> world \<Rightarrow> (exn + string option) \<times> world" where
  "find_subnet_in_az cfg ec2 az w =
     ((case describe_subnets ec2 (calls w) (SUBNET_IDS cfg) (az_filters az) of
         Inl e \<Rightarrow> Inl (raise_api e)
       | Inr subnets \<Rightarrow> Inr (case subnets of [] \<Rightarrow> None | subnet_id # _ \<Rightarrow> Some subnet_id)),
      w\<lparr>calls := calls w @ [DescribeSubnets (SUBNET_IDS cfg) (az_filters az)]\<rparr>)"

definition cb_tags :: "config \<Rightarrow> job_info \<Rightarrow> tag list" where
  "cb_tags cfg job_info =
     [(''Name'', PStr (ENVIRONMENT cfg @ ''-cb-action-runner'')),
      (''ghr:Application'', PStr ''github-action-runner''),
      (''ghr:created_by'', PStr ''cb-scale-up-lambda''),
      (''ghr:environment'', PStr (ENVIRONMENT cfg)),
      (''ghr:runner_name_prefix'', PStr (RUNNER_NAME_PREFIX cfg)),
      (''ghr:ssm_config_path'', opt_val (SSM_CONFIG_PATH cfg)),
      (''Environment'', PStr (ENVIRONMENT cfg)),
      (''Project'', PStr ''FlashInfer''),
      (''ManagedBy'', PStr ''Terraform'')]
     @ (if truthy (dict_get job_info ''repository'')
        then [(''ghr:repository'', dict_get job_info ''repository'')] else [])
     @ (if truthy (dict_get job_info ''workflow_job_id'')
        then [(''ghr:workflow_job_id'', PStr (py_str (dict_get job_info ''workflow_job_id'')))]
        else [])"

definition cb_request ::
  "config \<Rightarrow> cb_info \<Rightarrow> string \<Rightarrow> job_info \<Rightarrow> run_instances_request" where
  "cb_request cfg cb subnet_id job_info =
     \<lparr>req_LaunchTemplateName = LAUNCH_TEMPLATE_NAME cfg,
      req_LaunchTemplateVersion = ''$Default'',
      req_InstanceType = INSTANCE_TYPE cfg,
      req_SubnetId = subnet_id,
      req_MinCount = 1,
      req_MaxCount = 1,
      req_InstanceMarketOptions = Some \<lparr>MarketType = ''capacity-block'', SpotOptions = []\<rparr>,
      req_CapacityReservationId = Some (cb_id cb),
      req_InstanceTags = cb_tags cfg job_info,
      req_VolumeTags = cb_tags cfg job_info\<rparr>"

definition retry_errors :: "string list" where
  "retry_errors = [''InsufficientInstanceCapacity'', ''RequestLimitExceeded'', ''ServiceUnavailable'']"

definition launch_instance_into_cb ::
  "config \<Rightarrow> ec2_client \<Rightarrow> cb_info \<Rightarrow> string \<Rightarrow> job_info \<Rightarrow> world \<Rightarrow> (exn + string) \<times> world" where
  "launch_instance_into_cb cfg ec2 cb subnet_id job_info w =
     (case call_run_instances ec2 (cb_request cfg cb subnet_id job_info) w of
        (Inl (ClientError error_code t), w') \<Rightarrow>
          if error_code \<in> set retry_errors
          then (Inl (ScaleError (''Retryable error: '' @ error_code)), w')
          else (Inl (ClientError error_code t), w')
      | r \<Rightarrow> r)"

record cb_success =
  cb_message_id :: string
  cb_instance_id :: string
  capacity_block_id :: string

text \<open>
  The body of the \<open>try\<close> of the loop; \<open>instance_type\<close> is \<open>INSTANCE_TYPE\<close>, which the
  handler has checked to be a non-empty string.
\<close>

definition cb_try_record ::
  "config \<Rightarrow> ec2_client \<Rightarrow> string \<Rightarrow> sqs_record \<Rightarrow> world \<Rightarrow> (exn + string \<times> string) \<times> world" where
  "cb_try_record cfg ec2 instance_type record w =
     (case parse_sqs_message record of
        Inl e \<Rightarrow> (Inl e, w)
      | Inr job_info \<Rightarrow>
          (case find_active_capacity_block ec2 instance_type w of
             (Inl e, w1) \<Rightarrow> (Inl e, w1)
           | (Inr None, w1) \<Rightarrow>
               (Inl (ScaleError (''No active Capacity Block for '' @ instance_type)), w1)
           | (Inr (Some cb), w1) \<Rightarrow>
               (case find_subnet_in_az cfg ec2 (cb_az cb) w1 of
                  (Inl e, w2) \<Rightarrow> (Inl e, w2)
                | (Inr subnet, w2) \<Rightarrow>
                    if falsy_str subnet
                    then (Inl (ScaleError (''No subnet in '' @ cb_az cb)), w2)
                    else (case launch_instance_into_cb cfg ec2 cb
                                 (case subnet of None \<Rightarrow> [] | Some s \<Rightarrow> s) job_info w2 of
                            (Inl e, w3) \<Rightarrow> (Inl e, w3)
                          | (Inr iid, w3) \<Rightarrow> (Inr (iid, cb_id cb), w3)))))"

definition cb_process_record ::
  "config \<Rightarrow> ec2_client \<Rightarrow> string \<Rightarrow> cb_success results \<times> world \<Rightarrow> sqs_record
     \<Rightarrow> cb_success results \<times> world" where
  "cb_process_record cfg ec2 instance_type st record =
     (let results = fst st; w = snd st; mid = record_message_id record
      in case cb_try_record cfg ec2 instance_type record w of
           (Inr (iid, cbid), w') \<Rightarrow>
             (results\<lparr>successful := successful results @
                 [\<lparr>cb_message_id = mid, cb_instance_id = iid, capacity_block_id = cbid\<rparr>]\<rparr>, w')
         | (Inl e, w') \<Rightarrow>
             (results\<lparr>failed := failed results @ [record_failure mid e]\<rparr>, w'))"

definition cb_handler ::
  "config \<Rightarrow> ec2_client \<Rightarrow> event \<Rightarrow> world \<Rightarrow> (exn + cb_success response) \<times> world" where
  "cb_handler cfg ec2 ev w =
     (if falsy_str (LAUNCH_TEMPLATE_NAME cfg)
      then (Inl (ValueError ''LAUNCH_TEMPLATE_NAME environment variable is required''), w)
      else case INSTANCE_TYPE cfg of
        None \<Rightarrow> (Inl (ValueError ''INSTANCE_TYPE environment variable is required''), w)
      | Some instance_type \<Rightarrow>
          if instance_type = []
          then (Inl (ValueError ''INSTANCE_TYPE environment variable is required''), w)
          else if SUBNET_IDS cfg = [] \<or> SUBNET_IDS cfg = [[]]
          then (Inl (ValueError ''SUBNET_IDS environment variable is required''), w)
          else
            (let st = foldl (cb_process_record cfg ec2 instance_type)
                        (\<lparr>successful = [], failed = []\<rparr>, w) (event_records ev)
             in (Inr \<lparr>statusCode = 200,
                      response_body = fst st,
                      batchItemFailures = batch_item_failures (failed (fst st))\<rparr>,
                 snd st)))"

section \<open>cb-manager: the read-only status path\<close>

definition LABEL_TO_INSTANCE_TYPE :: "(string \<times> string) list" where
  "LABEL_TO_INSTANCE_TYPE =
     [(''b200'', ''p6-b200.48xlarge''),
      (''sm100'', ''p6-b200.48xlarge''),
      (''blackwell'', ''p6-b200.48xlarge''),
      (''h100'', ''p5.48xlarge''),
      (''sm90'', ''p5.48xlarge''),
      (''hopper'', ''p5.48xlarge'')]"

text \<open>\<open>str.lower\<close> on ASCII text; labels with other characters are outside the model.\<close>

definition lower_char :: "char \<Rightarrow> char" where
  "lower_char c =
     (let n = (of_char c :: nat) in if 65 \<le> n \<and> n \<le> 90 then char_of (n + 32) else c)"

definition lower :: "string \<Rightarrow> string" where
  "lower s = map lower_char s"

fun get_instance_type_from_labels :: "string list \<Rightarrow> string option" where
  "get_instance_type_from_labels [] = None"
| "get_instance_type_from_labels (label # labels) =
     (case map_of LABEL_TO_INSTANCE_TYPE (lower label) of
        Some instance_type \<Rightarrow> Some instance_type
      | None \<Rightarrow> get_instance_type_from_labels labels)"

record cb_entry =
  reservation_id :: string
  entry_state :: string
  entry_instance_type :: string
  availability_zone :: string
  available_capacity :: int
  total_capacity :: int
  start_date :: "string option"
  end_date :: "string option"

definition manager_filters :: "string \<Rightarrow> string option \<Rightarrow> ec2_filter list" where
  "manager_filters instance_type az =
     [(''instance-type'', [instance_type]),
      (''state'', [''active'', ''pending'', ''payment-pending''])]
     @ (if falsy_str az then []
        else [(''availability-zone'', [case az of None \<Rightarrow> [] | Some z \<Rightarrow> z])])"

definition cb_entry_of :: "capacity_reservation \<Rightarrow> cb_entry" where
  "cb_entry_of cr =
     \<lparr>reservation_id = CapacityReservationId cr,
      entry_state = State cr,
      entry_instance_type = InstanceType cr,
      availability_zone = AvailabilityZone cr,
      available_capacity = available_count cr,
      total_capacity = (case TotalInstanceCount cr of None \<Rightarrow> 0 | Some n \<Rightarrow> n),
      start_date = map_option isoformat (StartDate cr),
      end_date = map_option isoformat (EndDate cr)\<rparr>"

text \<open>
  \<open>get_active_capacity_blocks\<close>: a \<open>datetime\<close> is always truthy, so \<open>if cr.get('EndDate')\<close>
  holds exactly when the key is present; \<open>except Exception\<close> answers the empty list.
\<close>

definition get_active_capacity_blocks ::
  "ec2_client \<Rightarrow> string \<Rightarrow> string option \<Rightarrow> world \<Rightarrow> cb_entry list \<times> world" where
  "get_active_capacity_blocks ec2 instance_type az w =
     ((case describe_capacity_reservations ec2 (calls w) (manager_filters instance_type az) of
         Inl e \<Rightarrow> []
       | Inr response \<Rightarrow>
           map cb_entry_of
             (filter (\<lambda>cr. EndDate cr \<noteq> None) (case response of None \<Rightarrow> [] | Some crs \<Rightarrow> crs))),
      w\<lparr>calls := calls w @ [DescribeCapacityReservations (manager_filters instance_type az)]\<rparr>)"

record status_event =
  action :: "string option"
  labels :: "string list option"
  ev_instance_type :: "string option"
  ev_availability_zone :: "string option"

record status_response =
  status_code :: int
  resp_action :: "string option"
  resp_error :: "string option"
  resp_message :: "string option"
  resp_instance_type :: "string option"
  resp_availability_zone :: "string option"
  active_capacity_blocks :: "cb_entry list option"
  has_active_cb :: "bool option"

text \<open>
  The instance type the handler settles on: the event's, else the one of the labels, else
  \<open>DEFAULT_INSTANCE_TYPE\<close> (a parameter: it is read from the environment).
\<close>

definition resolve_instance_type :: "string \<Rightarrow> status_event \<Rightarrow> string" where
  "resolve_instance_type default_instance_type ev =
     (let labels = (case labels ev of None \<Rightarrow> [] | Some ls \<Rightarrow> ls);
          instance_type = ev_instance_type ev;
          instance_type = (if falsy_str instance_type \<and> labels \<noteq> []
                           then get_instance_type_from_labels labels else instance_type)
      in if falsy_str instance_type then default_instance_type
         else (case instance_type of None \<Rightarrow> default_instance_type | Some t \<Rightarrow> t))"

definition cbm_handler ::
  "string \<Rightarrow> ec2_client \<Rightarrow> status_event \<Rightarrow> world \<Rightarrow> status_response \<times> world" where
  "cbm_handler default_instance_type ec2 ev w =
     (let action = (case action ev of None \<Rightarrow> ''status'' | Some a \<Rightarrow> a);
          instance_type = resolve_instance_type default_instance_type ev;
          az = ev_availability_zone ev;
          r = get_active_capacity_blocks ec2 instance_type az w;
          active_cbs = fst r
      in (if action \<in> set [''check'', ''status'']
          then \<lparr>status_code = 200, resp_action = Some action, resp_error = None,
                resp_message = None, resp_instance_type = Some instance_type,
                resp_availability_zone = az, active_capacity_blocks = Some active_cbs,
                has_active_cb = Some (length active_cbs > 0)\<rparr>
          else if action \<in> set [''ensure'', ''purchase'']
          then \<lparr>status_code = 400, resp_action = Some action, resp_error = Some ''DISABLED'',
                resp_message = Some (''Automatic CB purchase is DISABLED. '' @
                                     ''Please purchase CBs manually via AWS Console.''),
                resp_instance_type = None, resp_availability_zone = None,
                active_capacity_blocks = Some active_cbs,
                has_active_cb = Some (length active_cbs > 0)\<rparr>
          else \<lparr>status_code = 400, resp_action = None,
                resp_error = Some (''Unknown action: '' @ action), resp_message = None,
                resp_instance_type = None, resp_availability_zone = None,
                active_capacity_blocks = None, has_active_cb = None\<rparr>,
          snd r))"

section \<open>Provider behaviours and inputs used for concrete runs\<close>

text \<open>
  The documented meaning of the filters of \<open>DescribeCapacityReservations\<close>: a reservation
  is listed when every filter names one of its values.
\<close>

definition filter_matches :: "ec2_filter \<Rightarrow> capacity_reservation \<Rightarrow> bool" where
  "filter_matches f cr =
     (if fst f = ''state'' then State cr \<in> set (snd f)
      else if fst f = ''instance-type'' then InstanceType cr \<in> set (snd f)
      else if fst f = ''availability-zone'' then AvailabilityZone cr \<in> set (snd f)
      else True)"

definition inventory_answer ::
  "capacity_reservation list \<Rightarrow> ec2_filter list \<Rightarrow> capacity_reservation list" where
  "inventory_answer inventory filters =
     filter (\<lambda>cr. list_all (\<lambda>f. filter_matches f cr) filters) inventory"

fun is_run_instances :: "api_call \<Rightarrow> bool" where
  "is_run_instances (RunInstances req) = True"
| "is_run_instances c = False"

text \<open>
  A provider that answers the n-th launch call with the n-th entry of a script, the
  reservation query from a fixed inventory (or with a fixed error), and the subnet query
  with a fixed list.
\<close>

definition scripted_run ::
  "(api_error + string) list \<Rightarrow> api_call list \<Rightarrow> run_instances_request \<Rightarrow> api_error + string" where
  "scripted_run script trace req =
     (let n = length (filter is_run_instances trace)
      in if n < length script then script ! n else Inl (ApiOtherError ''connection lost''))"

definition scripted_ec2 ::
  "(api_error + string) list \<Rightarrow> api_error + capacity_reservation list \<Rightarrow> string list
     \<Rightarrow> ec2_client" where
  "scripted_ec2 script inventory subnets =
     \<lparr>run_instances = scripted_run script,
      describe_capacity_reservations =
        (\<lambda>trace filters. case inventory of
             Inl e \<Rightarrow> Inl e
           | Inr crs \<Rightarrow> Inr (Some (inventory_answer crs filters))),
      describe_subnets = (\<lambda>trace ids filters. Inr subnets)\<rparr>"

definition throttled :: "api_error + string" where
  "throttled = Inl (ApiClientError ''RequestLimitExceeded'' ''Request limit exceeded.'')"

definition no_capacity :: "api_error + string" where
  "no_capacity = Inl (ApiClientError ''InsufficientInstanceCapacity'' ''Insufficient capacity.'')"

definition cfg_p4d :: config where
  "cfg_p4d = p4d_config [(''LAUNCH_TEMPLATE_NAME'', ''lt-p4d''),
                         (''SUBNET_IDS'', ''subnet-a,subnet-b'')]"

definition cfg_p4d_blank :: config where
  "cfg_p4d_blank = p4d_config [(''LAUNCH_TEMPLATE_NAME'', ''lt-p4d''), (''SUBNET_IDS'', '','')]"

definition cfg_cb :: config where
  "cfg_cb = cb_config [(''LAUNCH_TEMPLATE_NAME'', ''lt-cb''), (''SUBNET_IDS'', ''subnet-a''),
                       (''INSTANCE_TYPE'', ''p5.48xlarge'')]"

definition w0 :: world where
  "w0 = \<lparr>calls = [], draws = 0\<rparr>"

definition rnd0 :: "nat \<Rightarrow> nat" where
  "rnd0 k = 0"

definition job_body :: payload where
  "job_body = JsonObject [(''id'', PInt 42), (''repositoryOwner'', PStr ''flashinfer-ai''),
                          (''repositoryName'', PStr ''flashinfer''),
                          (''eventType'', PStr ''workflow_job''),
                          (''installationId'', PInt 7)]"

definition msg :: "string \<Rightarrow> sqs_record" where
  "msg mid = \<lparr>messageId = Some mid, body = Some job_body\<rparr>"

definition msg_without_id :: sqs_record where
  "msg_without_id = \<lparr>messageId = None, body = Some job_body\<rparr>"

definition msg_not_json :: "string \<Rightarrow> sqs_record" where
  "msg_not_json mid = \<lparr>messageId = Some mid, body = Some (NotJson ''{oops'')\<rparr>"

definition batch :: "sqs_record list \<Rightarrow> event" where
  "batch rs = \<lparr>Records = Some rs\<rparr>"

definition reservation ::
  "string \<Rightarrow> string \<Rightarrow> int \<Rightarrow> datetime option \<Rightarrow> capacity_reservation" where
  "reservation rid st n ends =
     \<lparr>CapacityReservationId = rid, State = st, InstanceType = ''p5.48xlarge'',
      AvailabilityZone = ''us-west-2a'', ReservationType = Some ''capacity-block'',
      AvailableInstanceCount = Some n, TotalInstanceCount = Some 4,
      StartDate = None, EndDate = ends\<rparr>"

section \<open>Evaluation rules and shared lemmas\<close>

lemmas fixture_defs =
  cfg_p4d_def cfg_p4d_blank_def cfg_cb_def p4d_config_def cb_config_def environ_get_def
  w0_def rnd0_def job_body_def msg_def msg_without_id_def msg_not_json_def batch_def
  reservation_def scripted_ec2_def scripted_run_def throttled_def no_capacity_def
  inventory_answer_def filter_matches_def

lemmas p4d_defs =
  p4d_handler_def p4d_process_record_def p4d_try_record_def p4d_launch_def
  p4d_ondemand_failover_def launch_spot_instance_def launch_ondemand_instance_def
  call_run_instances_def pick_subnet_def parse_sqs_message_def parse_sqs_message_try_def
  record_message_id_def event_records_def batch_item_failures_def
  SPOT_FAILOVER_ERRORS_def RETRY_ERRORS_def Let_def

lemma record_failure_id [simp]: "failed_message_id (record_failure mid e) = mid"
  by (cases e) simp_all







lemma p4d_handler_valid:
  assumes "\<not> falsy_str (LAUNCH_TEMPLATE_NAME cfg)" "SUBNET_IDS cfg \<noteq> []" "SUBNET_IDS cfg \<noteq> [[]]"
  shows "p4d_handler cfg ec2 rnd ev w =
           (Inr \<lparr>statusCode = 200,
                 response_body = fst (foldl (p4d_process_record cfg ec2 rnd)
                                   (\<lparr>successful = [], failed = []\<rparr>, w) (event_records ev)),
                 batchItemFailures = batch_item_failures (failed (fst
                    (foldl (p4d_process_record cfg ec2 rnd)
                       (\<lparr>successful = [], failed = []\<rparr>, w) (event_records ev))))\<rparr>,
            snd (foldl (p4d_process_record cfg ec2 rnd)
                   (\<lparr>successful = [], failed = []\<rparr>, w) (event_records ev)))"
  using assms by (simp add: p4d_handler_def Let_def)


section \<open>C1: one outcome per record, and the retry directive\<close>



section \<open>C2: the resolver never selects an exhausted reservation\<close>

lemma first_capacity_block_Some:
  "first_capacity_block crs = Some cb \<Longrightarrow>
     \<exists>cr\<in>set crs. CapacityReservationId cr = cb_id cb \<and> AvailabilityZone cr = cb_az cb \<and>
       ReservationType cr = Some ''capacity-block'' \<and>
       AvailableInstanceCount cr = Some (cb_available cb) \<and> 0 < cb_available cb"
proof (induction crs)
  case Nil
  then show ?case by simp
next
  case (Cons cr crs)
  show ?case
  proof (cases "ReservationType cr = Some ''capacity-block'' \<and> available_count cr > 0")
    case True
    with Cons.prems have "cb = \<lparr>cb_id = CapacityReservationId cr, cb_az = AvailabilityZone cr,
                                cb_available = available_count cr\<rparr>"
      by simp
    with True show ?thesis
      by (auto simp: available_count_def split: option.splits)
  next
    case False
    with Cons.prems have "first_capacity_block crs = Some cb"
      by auto
    with Cons.IH show ?thesis
      by auto
  qed
qed

lemma inventory_answer_cb_filters:
  "cr \<in> set (inventory_answer inventory (cb_filters instance_type)) \<Longrightarrow>
     cr \<in> set inventory \<and> State cr = ''active'' \<and> InstanceType cr = instance_type"
  by (simp add: inventory_answer_def cb_filters_def filter_matches_def)

text \<open>
  C2: whatever \<open>find_active_capacity_block\<close> returns is a reservation of the provider's
  answer that is a capacity block with \<open>AvailableInstanceCount\<close> strictly greater than
  zero; and when the provider answers the query from its inventory (the state and
  instance-type filters applied), that reservation is one of the inventory in state
  \<open>active\<close> and of the requested instance type. Reservations with zero availability are
  passed over, active or not.
\<close>

theorem resolver_never_selects_exhausted:
  assumes "find_active_capacity_block ec2 instance_type w = (Inr (Some cb), w')"
  shows "\<exists>crs. describe_capacity_reservations ec2 (calls w) (cb_filters instance_type) =
                 Inr (Some crs) \<and>
           (\<exists>cr\<in>set crs.
              CapacityReservationId cr = cb_id cb \<and> AvailabilityZone cr = cb_az cb \<and>
              ReservationType cr = Some ''capacity-block'' \<and>
              AvailableInstanceCount cr = Some (cb_available cb) \<and> 0 < cb_available cb \<and>
              (\<forall>inventory. crs = inventory_answer inventory (cb_filters instance_type) \<longrightarrow>
                 cr \<in> set inventory \<and> State cr = ''active'' \<and> InstanceType cr = instance_type))"
proof -
  from assms obtain response where
    r: "describe_capacity_reservations ec2 (calls w) (cb_filters instance_type) = Inr response"
    and f: "first_capacity_block (case response of None \<Rightarrow> [] | Some crs \<Rightarrow> crs) = Some cb"
    by (auto simp: find_active_capacity_block_def split: sum.splits)
  from f obtain crs where s: "response = Some crs"
    by (cases response) auto
  with f have "first_capacity_block crs = Some cb"
    by simp
  from first_capacity_block_Some [OF this] obtain cr where
    cr: "cr \<in> set crs" "CapacityReservationId cr = cb_id cb" "AvailabilityZone cr = cb_az cb"
      "ReservationType cr = Some ''capacity-block''"
      "AvailableInstanceCount cr = Some (cb_available cb)" "0 < cb_available cb"
    by blast
  have "\<forall>inventory. crs = inventory_answer inventory (cb_filters instance_type) \<longrightarrow>
          cr \<in> set inventory \<and> State cr = ''active'' \<and> InstanceType cr = instance_type"
    using cr(1) inventory_answer_cb_filters by blast
  with r s cr show ?thesis
    by blast
qed

theorem resolver_never_selects_exhausted_witness:
  "find_active_capacity_block
     (scripted_ec2 []
        (Inr [reservation ''cr-0'' ''active'' 0 None, reservation ''cr-1'' ''pending'' 2 None,
              reservation ''cr-2'' ''active'' 2 None]) [])
     ''p5.48xlarge'' w0 =
     (Inr (Some \<lparr>cb_id = ''cr-2'', cb_az = ''us-west-2a'', cb_available = 2\<rparr>),
      w0\<lparr>calls := [DescribeCapacityReservations (cb_filters ''p5.48xlarge'')]\<rparr>)
   \<and> (\<exists>cr\<in>set [reservation ''cr-0'' ''active'' 0 None, reservation ''cr-1'' ''pending'' 2 None,
                 reservation ''cr-2'' ''active'' 2 None].
         CapacityReservationId cr = ''cr-2'' \<and> State cr = ''active'' \<and>
         AvailableInstanceCount cr = Some 2)"
proof -
  let ?inv = "[reservation ''cr-0'' ''active'' 0 None, reservation ''cr-1'' ''pending'' 2 None,
               reservation ''cr-2'' ''active'' 2 None]"
  let ?ec2 = "scripted_ec2 [] (Inr ?inv) []"
  have h: "find_active_capacity_block ?ec2 ''p5.48xlarge'' w0 =
     (Inr (Some \<lparr>cb_id = ''cr-2'', cb_az = ''us-west-2a'', cb_available = 2\<rparr>),
      w0\<lparr>calls := [DescribeCapacityReservations (cb_filters ''p5.48xlarge'')]\<rparr>)"
    by (simp add: find_active_capacity_block_def fixture_defs cb_filters_def
          available_count_def)
  have a: "describe_capacity_reservations ?ec2 (calls w0) (cb_filters ''p5.48xlarge'') =
             Inr (Some (inventory_answer ?inv (cb_filters ''p5.48xlarge'')))"
    by (simp add: scripted_ec2_def)
  from resolver_never_selects_exhausted [OF h] a h show ?thesis
    by auto
qed

section \<open>C3: errors of a reservation-bound launch\<close>

lemma find_active_capacity_block_calls:
  "find_active_capacity_block ec2 instance_type w = (r, w1) \<Longrightarrow>
     w1 = w\<lparr>calls := calls w @ [DescribeCapacityReservations (cb_filters instance_type)]\<rparr>"
  by (auto simp: find_active_capacity_block_def)

lemma find_subnet_in_az_calls:
  "find_subnet_in_az cfg ec2 az w = (r, w1) \<Longrightarrow>
     w1 = w\<lparr>calls := calls w @ [DescribeSubnets (SUBNET_IDS cfg) (az_filters az)]\<rparr>"
  by (auto simp: find_subnet_in_az_def)

lemma launch_instance_into_cb_error:
  assumes "run_instances ec2 (calls w) (cb_request cfg cb subnet_id job_info) = Inl err"
  shows "launch_instance_into_cb cfg ec2 cb subnet_id job_info w =
           (Inl (case err of
                   ApiClientError code t \<Rightarrow>
                     if code \<in> set retry_errors then ScaleError (''Retryable error: '' @ code)
                     else ClientError code t
                 | ApiOtherError t \<Rightarrow> OtherException t),
            w\<lparr>calls := calls w @ [RunInstances (cb_request cfg cb subnet_id job_info)]\<rparr>)"
  using assms
  by (cases err) (simp_all add: launch_instance_into_cb_def call_run_instances_def)

text \<open>
  C3: when a reservation-bound launch is attempted and the provider answers the launch
  call with an error, the record gets a failed outcome and no successful one; the failure
  is marked retryable exactly when the error is a \<open>ClientError\<close> whose code is
  \<open>InsufficientInstanceCapacity\<close>, \<open>RequestLimitExceeded\<close> or \<open>ServiceUnavailable\<close>, and is
  terminal for any other error; the only launch call made for the record is the one into
  the capacity block (no second launch into another market).
\<close>

theorem reservation_launch_error_classification:
  assumes "parse_sqs_message record = Inr job_info"
    and "find_active_capacity_block ec2 instance_type w = (Inr (Some cb), w1)"
    and "find_subnet_in_az cfg ec2 (cb_az cb) w1 = (Inr (Some subnet_id), w2)"
    and "subnet_id \<noteq> []"
    and "run_instances ec2 (calls w2) (cb_request cfg cb subnet_id job_info) = Inl err"
  shows "\<exists>f w'. cb_process_record cfg ec2 instance_type (results, w) record =
                  (results\<lparr>failed := failed results @ [f]\<rparr>, w') \<and>
           failed_message_id f = record_message_id record \<and>
           retry f = (\<exists>code t. err = ApiClientError code t \<and>
                        code \<in> {''InsufficientInstanceCapacity'', ''RequestLimitExceeded'',
                                ''ServiceUnavailable''}) \<and>
           filter is_run_instances (calls w') =
             filter is_run_instances (calls w) @
               [RunInstances (cb_request cfg cb subnet_id job_info)] \<and>
           req_InstanceMarketOptions (cb_request cfg cb subnet_id job_info) =
             Some \<lparr>MarketType = ''capacity-block'', SpotOptions = []\<rparr> \<and>
           req_CapacityReservationId (cb_request cfg cb subnet_id job_info) = Some (cb_id cb)"
proof -
  let ?req = "cb_request cfg cb subnet_id job_info"
  let ?e = "case err of
              ApiClientError code t \<Rightarrow>
                if code \<in> set retry_errors then ScaleError (''Retryable error: '' @ code)
                else ClientError code t
            | ApiOtherError t \<Rightarrow> OtherException t"
  let ?w' = "w2\<lparr>calls := calls w2 @ [RunInstances ?req]\<rparr>"
  have l: "launch_instance_into_cb cfg ec2 cb subnet_id job_info w2 = (Inl ?e, ?w')"
    using assms(5) by (rule launch_instance_into_cb_error)
  have t: "cb_try_record cfg ec2 instance_type record w = (Inl ?e, ?w')"
    using assms(1-4) l by (simp add: cb_try_record_def)
  have p: "cb_process_record cfg ec2 instance_type (results, w) record =
             (results\<lparr>failed := failed results @ [record_failure (record_message_id record) ?e]\<rparr>,
              ?w')"
    using t by (simp add: cb_process_record_def Let_def)
  have r: "retry (record_failure (record_message_id record) ?e) =
             (\<exists>code t. err = ApiClientError code t \<and>
                code \<in> {''InsufficientInstanceCapacity'', ''RequestLimitExceeded'',
                        ''ServiceUnavailable''})"
    by (cases err) (auto simp: retry_errors_def)
  have c: "calls w2 = calls w @ [DescribeCapacityReservations (cb_filters instance_type),
                                 DescribeSubnets (SUBNET_IDS cfg) (az_filters (cb_az cb))]"
    using find_active_capacity_block_calls [OF assms(2)] find_subnet_in_az_calls [OF assms(3)]
    by simp
  have k: "filter is_run_instances (calls ?w') =
             filter is_run_instances (calls w) @ [RunInstances ?req]"
    by (simp add: c)
  have m: "req_InstanceMarketOptions ?req = Some \<lparr>MarketType = ''capacity-block'', SpotOptions = []\<rparr>
           \<and> req_CapacityReservationId ?req = Some (cb_id cb)"
    by (simp add: cb_request_def)
  show ?thesis
    using p r k m record_failure_id by blast
qed


theorem reservation_launch_error_classification_witness:
  "run_instances
     (scripted_ec2 [no_capacity] (Inr [reservation ''cr-1'' ''active'' 2 None]) [''subnet-a''])
     [DescribeCapacityReservations (cb_filters ''p5.48xlarge''),
      DescribeSubnets (SUBNET_IDS cfg_cb) (az_filters ''us-west-2a'')]
     (cb_request cfg_cb \<lparr>cb_id = ''cr-1'', cb_az = ''us-west-2a'', cb_available = 2\<rparr>
        ''subnet-a'' [])
     = Inl (ApiClientError ''InsufficientInstanceCapacity'' ''Insufficient capacity.'')
   \<and> (\<exists>f w'. cb_process_record cfg_cb
                 (scripted_ec2 [no_capacity] (Inr [reservation ''cr-1'' ''active'' 2 None])
                    [''subnet-a''])
                 ''p5.48xlarge'' (\<lparr>successful = [], failed = []\<rparr>, w0) (msg_not_json ''m1'') =
                 (\<lparr>successful = [], failed = [f]\<rparr>, w') \<and>
          failed_message_id f = ''m1'' \<and> retry f \<and>
          length (filter is_run_instances (calls w')) = 1)"
proof -
  let ?ec2 = "scripted_ec2 [no_capacity] (Inr [reservation ''cr-1'' ''active'' 2 None])
                [''subnet-a'']"
  let ?cb = "\<lparr>cb_id = ''cr-1'', cb_az = ''us-west-2a'', cb_available = 2\<rparr>"
  let ?w1 = "w0\<lparr>calls := calls w0 @ [DescribeCapacityReservations (cb_filters ''p5.48xlarge'')]\<rparr>"
  let ?w2 = "?w1\<lparr>calls := calls ?w1 @
                 [DescribeSubnets (SUBNET_IDS cfg_cb) (az_filters ''us-west-2a'')]\<rparr>"
  have h1: "parse_sqs_message (msg_not_json ''m1'') = Inr []"
    by (simp add: parse_sqs_message_def parse_sqs_message_try_def msg_not_json_def)
  have h2: "find_active_capacity_block ?ec2 ''p5.48xlarge'' w0 = (Inr (Some ?cb), ?w1)"
    by (simp add: find_active_capacity_block_def fixture_defs cb_filters_def
          available_count_def)
  have h3: "find_subnet_in_az cfg_cb ?ec2 (cb_az ?cb) ?w1 = (Inr (Some ''subnet-a''), ?w2)"
    by (simp add: find_subnet_in_az_def scripted_ec2_def)
  have h4: "''subnet-a'' \<noteq> []"
    by simp
  have h5: "run_instances ?ec2 (calls ?w2) (cb_request cfg_cb ?cb ''subnet-a'' []) =
              Inl (ApiClientError ''InsufficientInstanceCapacity'' ''Insufficient capacity.'')"
    by (simp add: scripted_ec2_def scripted_run_def no_capacity_def w0_def)
  from reservation_launch_error_classification
         [OF h1 h2 h3 h4 h5, of "\<lparr>successful = [], failed = []\<rparr>"]
  obtain f w' where
    "cb_process_record cfg_cb ?ec2 ''p5.48xlarge'' (\<lparr>successful = [], failed = []\<rparr>, w0)
       (msg_not_json ''m1'') = (\<lparr>successful = [], failed = []\<rparr>\<lparr>failed := [] @ [f]\<rparr>, w')"
    "failed_message_id f = record_message_id (msg_not_json ''m1'')"
    "retry f"
    "filter is_run_instances (calls w') =
       filter is_run_instances (calls w0) @
         [RunInstances (cb_request cfg_cb ?cb ''subnet-a'' [])]"
    by auto
  moreover have "record_message_id (msg_not_json ''m1'') = ''m1''"
    by (simp add: record_message_id_def msg_not_json_def)
  moreover have "calls w0 = []"
    by (simp add: w0_def)
  ultimately show ?thesis
    using h5 by (auto simp: w0_def)
qed

section \<open>C4 and C5: the spot strategy with on-demand fallback\<close>

lemma launch_spot_instance_eq:
  "launch_spot_instance cfg ec2 subnet_id job_info w =
     ((case run_instances ec2 (calls w) (spot_request cfg subnet_id job_info) of
         Inl e \<Rightarrow> Inl (raise_api e) | Inr i \<Rightarrow> Inr i),
      w\<lparr>calls := calls w @ [RunInstances (spot_request cfg subnet_id job_info)]\<rparr>)"
  by (simp add: launch_spot_instance_def call_run_instances_def)

lemma launch_ondemand_instance_eq:
  "launch_ondemand_instance cfg ec2 subnet_id job_info w =
     ((case run_instances ec2 (calls w) (ondemand_request cfg subnet_id job_info) of
         Inl e \<Rightarrow> Inl (raise_api e) | Inr i \<Rightarrow> Inr i),
      w\<lparr>calls := calls w @ [RunInstances (ondemand_request cfg subnet_id job_info)]\<rparr>)"
  by (simp add: launch_ondemand_instance_def call_run_instances_def)

lemma p4d_process_record_unfold:
  assumes "parse_sqs_message record = Inr job_info"
    and "pick_subnet cfg rnd w = (Inr subnet_id, w1)"
  shows "p4d_process_record cfg ec2 rnd (results, w) record =
           (case p4d_launch cfg ec2 subnet_id job_info w1 of
              (Inr (iid, mt), w') \<Rightarrow>
                (results\<lparr>successful := successful results @
                    [\<lparr>message_id = record_message_id record, instance_id = iid,
                      market_type = mt\<rparr>]\<rparr>, w')
            | (Inl e, w') \<Rightarrow>
                (results\<lparr>failed := failed results @
                    [record_failure (record_message_id record) e]\<rparr>, w'))"
  using assms by (simp add: p4d_process_record_def p4d_try_record_def Let_def)

text \<open>
  C4: when the spot launch is answered with a \<open>ClientError\<close> whose code is
  \<open>InsufficientInstanceCapacity\<close>, \<open>SpotMaxPriceTooLow\<close> or \<open>MaxSpotInstanceCountExceeded\<close>
  and the on-demand launch that follows succeeds, the record gets a successful outcome
  whose market type is \<open>on-demand\<close>, with the instance id of the on-demand launch.
\<close>

theorem spot_failover_records_on_demand:
  assumes "parse_sqs_message record = Inr job_info"
    and "pick_subnet cfg rnd w = (Inr subnet_id, w1)"
    and "run_instances ec2 (calls w1) (spot_request cfg subnet_id job_info) =
           Inl (ApiClientError code t)"
    and "code \<in> {''InsufficientInstanceCapacity'', ''SpotMaxPriceTooLow'',
                  ''MaxSpotInstanceCountExceeded''}"
    and "run_instances ec2 (calls w1 @ [RunInstances (spot_request cfg subnet_id job_info)])
           (ondemand_request cfg subnet_id job_info) = Inr iid"
  shows "p4d_process_record cfg ec2 rnd (results, w) record =
           (results\<lparr>successful := successful results @
               [\<lparr>message_id = record_message_id record, instance_id = iid,
                 market_type = ''on-demand''\<rparr>]\<rparr>,
            w1\<lparr>calls := calls w1 @ [RunInstances (spot_request cfg subnet_id job_info),
                                    RunInstances (ondemand_request cfg subnet_id job_info)]\<rparr>)"
proof -
  have c: "code \<in> set SPOT_FAILOVER_ERRORS"
    using assms(4) by (simp add: SPOT_FAILOVER_ERRORS_def)
  have "p4d_launch cfg ec2 subnet_id job_info w1 =
          (Inr (iid, ''on-demand''),
           w1\<lparr>calls := calls w1 @ [RunInstances (spot_request cfg subnet_id job_info),
                                   RunInstances (ondemand_request cfg subnet_id job_info)]\<rparr>)"
    using assms(3,5) c
    by (simp add: p4d_launch_def p4d_ondemand_failover_def launch_spot_instance_eq
          launch_ondemand_instance_eq)
  then show ?thesis
    by (simp add: p4d_process_record_unfold [OF assms(1,2)])
qed

text \<open>
  C5: a \<open>ClientError\<close> with code \<open>RequestLimitExceeded\<close> or \<open>ServiceUnavailable\<close> on the
  spot attempt gives a failed outcome marked retryable, and the spot call is the only
  launch call made for the record; the same error on the on-demand attempt (made after a
  failover-class error of the spot attempt) also gives a failed outcome marked retryable.
\<close>

theorem throttling_is_retryable:
  assumes "parse_sqs_message record = Inr job_info"
    and "pick_subnet cfg rnd w = (Inr subnet_id, w1)"
    and "code \<in> {''RequestLimitExceeded'', ''ServiceUnavailable''}"
  shows "(run_instances ec2 (calls w1) (spot_request cfg subnet_id job_info) =
            Inl (ApiClientError code t) \<longrightarrow>
          p4d_process_record cfg ec2 rnd (results, w) record =
            (results\<lparr>failed := failed results @
                [\<lparr>failed_message_id = record_message_id record,
                  error = ''Retryable error: '' @ code, retry = True\<rparr>]\<rparr>,
             w1\<lparr>calls := calls w1 @ [RunInstances (spot_request cfg subnet_id job_info)]\<rparr>))
       \<and> (run_instances ec2 (calls w1) (spot_request cfg subnet_id job_info) =
            Inl (ApiClientError code1 t1) \<and>
          code1 \<in> {''InsufficientInstanceCapacity'', ''SpotMaxPriceTooLow'',
                    ''MaxSpotInstanceCountExceeded''} \<and>
          run_instances ec2 (calls w1 @ [RunInstances (spot_request cfg subnet_id job_info)])
            (ondemand_request cfg subnet_id job_info) = Inl (ApiClientError code t) \<longrightarrow>
          p4d_process_record cfg ec2 rnd (results, w) record =
            (results\<lparr>failed := failed results @
                [\<lparr>failed_message_id = record_message_id record,
                  error = ''Retryable error: '' @ code, retry = True\<rparr>]\<rparr>,
             w1\<lparr>calls := calls w1 @ [RunInstances (spot_request cfg subnet_id job_info),
                                     RunInstances (ondemand_request cfg subnet_id job_info)]\<rparr>))"
proof (intro conjI impI)
  have r: "code \<in> set RETRY_ERRORS" and n: "code \<notin> set SPOT_FAILOVER_ERRORS"
    using assms(3) by (auto simp: RETRY_ERRORS_def SPOT_FAILOVER_ERRORS_def)
  {
    assume "run_instances ec2 (calls w1) (spot_request cfg subnet_id job_info) =
              Inl (ApiClientError code t)"
    then have "p4d_launch cfg ec2 subnet_id job_info w1 =
                 (Inl (ScaleError (''Retryable error: '' @ code)),
                  w1\<lparr>calls := calls w1 @ [RunInstances (spot_request cfg subnet_id job_info)]\<rparr>)"
      using r n by (simp add: p4d_launch_def launch_spot_instance_eq)
    then show "p4d_process_record cfg ec2 rnd (results, w) record =
            (results\<lparr>failed := failed results @
                [\<lparr>failed_message_id = record_message_id record,
                  error = ''Retryable error: '' @ code, retry = True\<rparr>]\<rparr>,
             w1\<lparr>calls := calls w1 @ [RunInstances (spot_request cfg subnet_id job_info)]\<rparr>)"
      by (simp add: p4d_process_record_unfold [OF assms(1,2)])
  }
  {
    assume a: "run_instances ec2 (calls w1) (spot_request cfg subnet_id job_info) =
            Inl (ApiClientError code1 t1) \<and>
          code1 \<in> {''InsufficientInstanceCapacity'', ''SpotMaxPriceTooLow'',
                    ''MaxSpotInstanceCountExceeded''} \<and>
          run_instances ec2 (calls w1 @ [RunInstances (spot_request cfg subnet_id job_info)])
            (ondemand_request cfg subnet_id job_info) = Inl (ApiClientError code t)"
    then have c: "code1 \<in> set SPOT_FAILOVER_ERRORS"
      by (simp add: SPOT_FAILOVER_ERRORS_def)
    have "p4d_launch cfg ec2 subnet_id job_info w1 =
                 (Inl (ScaleError (''Retryable error: '' @ code)),
                  w1\<lparr>calls := calls w1 @ [RunInstances (spot_request cfg subnet_id job_info),
                                     RunInstances (ondemand_request cfg subnet_id job_info)]\<rparr>)"
      using a c r
      by (simp add: p4d_launch_def p4d_ondemand_failover_def launch_spot_instance_eq
            launch_ondemand_instance_eq)
    then show "p4d_process_record cfg ec2 rnd (results, w) record =
            (results\<lparr>failed := failed results @
                [\<lparr>failed_message_id = record_message_id record,
                  error = ''Retryable error: '' @ code, retry = True\<rparr>]\<rparr>,
             w1\<lparr>calls := calls w1 @ [RunInstances (spot_request cfg subnet_id job_info),
                                     RunInstances (ondemand_request cfg subnet_id job_info)]\<rparr>)"
      by (simp add: p4d_process_record_unfold [OF assms(1,2)])
  }
qed


theorem spot_failover_records_on_demand_witness:
  "fst (p4d_process_record cfg_p4d (scripted_ec2 [no_capacity, Inr ''i-0002''] (Inr []) []) rnd0
          (\<lparr>successful = [], failed = []\<rparr>, w0) (msg ''m1'')) =
     \<lparr>successful = [\<lparr>message_id = ''m1'', instance_id = ''i-0002'',
                      market_type = ''on-demand''\<rparr>],
      failed = []\<rparr>"
proof -
  let ?ec2 = "scripted_ec2 [no_capacity, Inr ''i-0002''] (Inr []) []"
  let ?J = "[(''workflow_job_id'', PInt 42), (''repository'', PStr ''flashinfer-ai/flashinfer''),
     (''event_type'', PStr ''workflow_job''), (''installation_id'', PInt 7)]"
  let ?w1 = "w0\<lparr>draws := Suc (draws w0)\<rparr>"
  have h1: "parse_sqs_message (msg ''m1'') = Inr ?J"
    by (simp add: parse_sqs_message_def parse_sqs_message_try_def msg_def job_body_def
          dict_get_def)
  have h2: "pick_subnet cfg_p4d rnd0 w0 = (Inr ''subnet-a'', ?w1)"
    by (simp add: pick_subnet_def fixture_defs)
  have h3: "run_instances ?ec2 (calls ?w1) (spot_request cfg_p4d ''subnet-a'' ?J) =
              Inl (ApiClientError ''InsufficientInstanceCapacity'' ''Insufficient capacity.'')"
    by (simp add: scripted_ec2_def scripted_run_def no_capacity_def w0_def)
  have h4: "''InsufficientInstanceCapacity'' \<in>
              {''InsufficientInstanceCapacity'', ''SpotMaxPriceTooLow'',
               ''MaxSpotInstanceCountExceeded''}"
    by simp
  have h5: "run_instances ?ec2
              (calls ?w1 @ [RunInstances (spot_request cfg_p4d ''subnet-a'' ?J)])
              (ondemand_request cfg_p4d ''subnet-a'' ?J) = Inr ''i-0002''"
    by (simp add: scripted_ec2_def scripted_run_def no_capacity_def w0_def)
  have m: "record_message_id (msg ''m1'') = ''m1''"
    by (simp add: record_message_id_def msg_def)
  show ?thesis
    using spot_failover_records_on_demand
            [OF h1 h2 h3 h4 h5, of "\<lparr>successful = [], failed = []\<rparr>"] m
    by simp
qed

theorem throttling_is_retryable_witness:
  "fst (p4d_process_record cfg_p4d (scripted_ec2 [throttled] (Inr []) []) rnd0
          (\<lparr>successful = [], failed = []\<rparr>, w0) (msg ''m1'')) =
     \<lparr>successful = [],
      failed = [\<lparr>failed_message_id = ''m1'',
                  error = ''Retryable error: RequestLimitExceeded'', retry = True\<rparr>]\<rparr>
   \<and> length (calls (snd (p4d_process_record cfg_p4d (scripted_ec2 [throttled] (Inr []) []) rnd0
                            (\<lparr>successful = [], failed = []\<rparr>, w0) (msg ''m1'')))) = 1
   \<and> fst (p4d_process_record cfg_p4d (scripted_ec2 [no_capacity, throttled] (Inr []) []) rnd0
          (\<lparr>successful = [], failed = []\<rparr>, w0) (msg ''m1'')) =
     \<lparr>successful = [],
      failed = [\<lparr>failed_message_id = ''m1'',
                  error = ''Retryable error: RequestLimitExceeded'', retry = True\<rparr>]\<rparr>"
proof -
  let ?ec2 = "scripted_ec2 [throttled] (Inr []) []"
  let ?ec2' = "scripted_ec2 [no_capacity, throttled] (Inr []) []"
  let ?J = "[(''workflow_job_id'', PInt 42), (''repository'', PStr ''flashinfer-ai/flashinfer''),
     (''event_type'', PStr ''workflow_job''), (''installation_id'', PInt 7)]"
  let ?w1 = "w0\<lparr>draws := Suc (draws w0)\<rparr>"
  have h1: "parse_sqs_message (msg ''m1'') = Inr ?J"
    by (simp add: parse_sqs_message_def parse_sqs_message_try_def msg_def job_body_def
          dict_get_def)
  have h2: "pick_subnet cfg_p4d rnd0 w0 = (Inr ''subnet-a'', ?w1)"
    by (simp add: pick_subnet_def fixture_defs)
  have h3: "''RequestLimitExceeded'' \<in> {''RequestLimitExceeded'', ''ServiceUnavailable''}"
    by simp
  have a: "run_instances ?ec2 (calls ?w1) (spot_request cfg_p4d ''subnet-a'' ?J) =
             Inl (ApiClientError ''RequestLimitExceeded'' ''Request limit exceeded.'')"
    by (simp add: scripted_ec2_def scripted_run_def throttled_def w0_def)
  have b: "run_instances ?ec2' (calls ?w1) (spot_request cfg_p4d ''subnet-a'' ?J) =
             Inl (ApiClientError ''InsufficientInstanceCapacity'' ''Insufficient capacity.'') \<and>
           ''InsufficientInstanceCapacity'' \<in>
              {''InsufficientInstanceCapacity'', ''SpotMaxPriceTooLow'',
               ''MaxSpotInstanceCountExceeded''} \<and>
           run_instances ?ec2'
              (calls ?w1 @ [RunInstances (spot_request cfg_p4d ''subnet-a'' ?J)])
              (ondemand_request cfg_p4d ''subnet-a'' ?J) =
             Inl (ApiClientError ''RequestLimitExceeded'' ''Request limit exceeded.'')"
    by (simp add: scripted_ec2_def scripted_run_def no_capacity_def throttled_def w0_def)
  have m: "record_message_id (msg ''m1'') = ''m1''"
    by (simp add: record_message_id_def msg_def)
  have c: "calls w0 = []"
    by (simp add: w0_def)
  note t1 = throttling_is_retryable
              [OF h1 h2 h3, of ?ec2 "''Request limit exceeded.''"
                 "\<lparr>successful = [], failed = []\<rparr>", THEN conjunct1, rule_format, OF a]
  note t2 = throttling_is_retryable
              [OF h1 h2 h3, of ?ec2' "''Request limit exceeded.''"
                 "\<lparr>successful = [], failed = []\<rparr>" "''InsufficientInstanceCapacity''"
                 "''Insufficient capacity.''", THEN conjunct2, rule_format, OF b]
  show ?thesis
    using t1 t2 m c by simp
qed

section \<open>C6: a failing inventory query\<close>

lemma record_failure_api [simp]:
  "record_failure mid (raise_api err) =
     \<lparr>failed_message_id = mid, error = exn_str (raise_api err), retry = False\<rparr>"
  by (cases err) simp_all

text \<open>
  C6, as stated, fails: when \<open>describe_capacity_reservations\<close> raises (here with the
  throttling code \<open>RequestLimitExceeded\<close>), the scale-up handler records the request as
  failed with \<open>retry = False\<close> and leaves it out of \<open>batchItemFailures\<close>; and the status
  path answers the empty list, as if no reservation had been found.
\<close>

theorem inventory_query_failure_counterexample:
  "fst (cb_handler cfg_cb
          (scripted_ec2 [] (Inl (ApiClientError ''RequestLimitExceeded'' ''Request limit exceeded.''))
             [''subnet-a''])
          (batch [msg ''m1'']) w0) =
     Inr \<lparr>statusCode = 200,
          response_body =
            \<lparr>successful = [],
             failed = [\<lparr>failed_message_id = ''m1'', error = ''Request limit exceeded.'',
                         retry = False\<rparr>]\<rparr>,
          batchItemFailures = []\<rparr>
   \<and> fst (get_active_capacity_blocks
            (scripted_ec2 [] (Inl (ApiClientError ''RequestLimitExceeded''
                                     ''Request limit exceeded.'')) [''subnet-a''])
            ''p5.48xlarge'' None w0) = []"
  by (simp add: fixture_defs cb_handler_def cb_process_record_def cb_try_record_def
        find_active_capacity_block_def get_active_capacity_blocks_def
        parse_sqs_message_def parse_sqs_message_try_def record_message_id_def
        event_records_def batch_item_failures_def Let_def)

text \<open>
  C6, amended: in the scale-up path a failure of \<open>describe_capacity_reservations\<close> is not
  swallowed: the exception reaches the handler, which records the request as failed with
  the exception's text and \<open>retry = False\<close> (a terminal failure, not a retryable one and
  not the "no active Capacity Block" outcome), without any further provider call. In the
  read-only status path the failure is swallowed: \<open>get_active_capacity_blocks\<close> answers
  the empty list.
\<close>

theorem inventory_query_failure:
  "(parse_sqs_message record = Inr job_info \<and>
    describe_capacity_reservations ec2 (calls w) (cb_filters instance_type) = Inl err \<longrightarrow>
      cb_process_record cfg ec2 instance_type (results, w) record =
        (results\<lparr>failed := failed results @
            [\<lparr>failed_message_id = record_message_id record,
              error = exn_str (raise_api err), retry = False\<rparr>]\<rparr>,
         w\<lparr>calls := calls w @ [DescribeCapacityReservations (cb_filters instance_type)]\<rparr>))
   \<and> (describe_capacity_reservations ec2 (calls w) (manager_filters instance_type az) = Inl err
        \<longrightarrow> fst (get_active_capacity_blocks ec2 instance_type az w) = [])"
  by (simp add: cb_process_record_def cb_try_record_def find_active_capacity_block_def
        get_active_capacity_blocks_def Let_def)

theorem inventory_query_failure_witness:
  "describe_capacity_reservations
     (scripted_ec2 [] (Inl (ApiOtherError ''Could not connect to the endpoint URL'')) [])
     (calls w0) (cb_filters ''p5.48xlarge'') =
     Inl (ApiOtherError ''Could not connect to the endpoint URL'')
   \<and> cb_process_record cfg_cb
       (scripted_ec2 [] (Inl (ApiOtherError ''Could not connect to the endpoint URL'')) [])
       ''p5.48xlarge'' (\<lparr>successful = [], failed = []\<rparr>, w0) (msg_not_json ''m1'') =
       (\<lparr>successful = [],
         failed = [\<lparr>failed_message_id = ''m1'',
                     error = ''Could not connect to the endpoint URL'', retry = False\<rparr>]\<rparr>,
        \<lparr>calls = [DescribeCapacityReservations (cb_filters ''p5.48xlarge'')], draws = 0\<rparr>)
   \<and> fst (get_active_capacity_blocks
            (scripted_ec2 [] (Inl (ApiOtherError ''Could not connect to the endpoint URL'')) [])
            ''p5.48xlarge'' None w0) = []"
proof -
  let ?err = "ApiOtherError ''Could not connect to the endpoint URL''"
  let ?ec2 = "scripted_ec2 [] (Inl ?err) []"
  have h1: "parse_sqs_message (msg_not_json ''m1'') = Inr []"
    by (simp add: parse_sqs_message_def parse_sqs_message_try_def msg_not_json_def)
  have h2: "describe_capacity_reservations ?ec2 (calls w0) (cb_filters ''p5.48xlarge'') =
              Inl ?err"
    by (simp add: scripted_ec2_def)
  have h3: "describe_capacity_reservations ?ec2 (calls w0) (manager_filters ''p5.48xlarge'' None) =
              Inl ?err"
    by (simp add: scripted_ec2_def)
  have m: "record_message_id (msg_not_json ''m1'') = ''m1''"
    by (simp add: record_message_id_def msg_not_json_def)
  note t = inventory_query_failure
             [of "msg_not_json ''m1''" "[]" ?ec2 w0 "''p5.48xlarge''" ?err cfg_cb
                 "\<lparr>successful = [], failed = []\<rparr>" None]
  from t h1 h2 h3 m show ?thesis
    by (simp add: w0_def)
qed

section \<open>C7: a subnet pool with only blank entries\<close>

lemma pick_subnet_blank:
  assumes "\<forall>s\<in>set (SUBNET_IDS cfg). s = []"
  shows "pick_subnet cfg rnd w = (Inl (ScaleError ''No valid subnets configured''), w)"
proof -
  have "filter (\<lambda>s. s \<noteq> []) (SUBNET_IDS cfg) = []"
    using assms by (simp add: filter_empty_conv)
  then show ?thesis
    by (simp add: pick_subnet_def)
qed

lemma parse_sqs_message_Inl:
  "parse_sqs_message record = Inl e \<Longrightarrow> \<exists>m. e = AttributeError m"
  by (auto simp: parse_sqs_message_def parse_sqs_message_try_def
        split: option.splits payload.splits)

lemma no_subnet_failure_retry:
  "retry (record_failure mid
            (case parse_sqs_message r of
               Inl e \<Rightarrow> e
             | Inr job_info \<Rightarrow> ScaleError ''No valid subnets configured'')) =
     (\<not> isl (parse_sqs_message r))"
proof (cases "parse_sqs_message r")
  case (Inl e)
  then obtain m where "e = AttributeError m"
    using parse_sqs_message_Inl by blast
  with Inl show ?thesis
    by simp
next
  case (Inr j)
  then show ?thesis
    by simp
qed

lemma p4d_process_record_blank:
  assumes "\<forall>s\<in>set (SUBNET_IDS cfg). s = []"
  shows "p4d_process_record cfg ec2 rnd (results, w) r =
           (results\<lparr>failed := failed results @
               [record_failure (record_message_id r)
                  (case parse_sqs_message r of
                     Inl e \<Rightarrow> e
                   | Inr job_info \<Rightarrow> ScaleError ''No valid subnets configured'')]\<rparr>, w)"
  by (simp add: p4d_process_record_def p4d_try_record_def pick_subnet_blank [OF assms]
        Let_def split: sum.splits)

lemma p4d_foldl_blank:
  assumes "\<forall>s\<in>set (SUBNET_IDS cfg). s = []"
  shows "foldl (p4d_process_record cfg ec2 rnd) (results, w) rs =
           (results\<lparr>failed := failed results @ map (\<lambda>r. record_failure (record_message_id r)
            (case parse_sqs_message r of
               Inl e \<Rightarrow> e
             | Inr job_info \<Rightarrow> ScaleError ''No valid subnets configured'')) rs\<rparr>, w)"
proof (induction rs arbitrary: results)
  case Nil
  show ?case by simp
next
  case (Cons r rs)
  show ?case
    by (simp add: p4d_process_record_blank [OF assms] Cons.IH)
qed

lemma batch_item_failures_blank:
  "batch_item_failures (map (\<lambda>r. record_failure (record_message_id r)
            (case parse_sqs_message r of
               Inl e \<Rightarrow> e
             | Inr job_info \<Rightarrow> ScaleError ''No valid subnets configured'')) rs) =
     map record_message_id (filter (\<lambda>r. \<not> isl (parse_sqs_message r)) rs)"
  by (induction rs) (simp_all add: batch_item_failures_def no_subnet_failure_retry)

lemma pick_subnet_nonempty:
  assumes "\<exists>s\<in>set (SUBNET_IDS cfg). s \<noteq> []"
  shows "\<exists>s. pick_subnet cfg rnd w = (Inr s, w\<lparr>draws := Suc (draws w)\<rparr>) \<and>
             s \<in> set (SUBNET_IDS cfg) \<and> s \<noteq> []"
proof -
  let ?valid = "filter (\<lambda>s. s \<noteq> []) (SUBNET_IDS cfg)"
  have ne: "?valid \<noteq> []"
    using assms by (simp add: filter_empty_conv)
  then have "rnd (draws w) mod length ?valid < length ?valid"
    by simp
  then have "?valid ! (rnd (draws w) mod length ?valid) \<in> set ?valid"
    by (rule nth_mem)
  then have m: "?valid ! (rnd (draws w) mod length ?valid) \<in> set (SUBNET_IDS cfg) \<and>
                ?valid ! (rnd (draws w) mod length ?valid) \<noteq> []"
    by simp
  have "pick_subnet cfg rnd w =
          (Inr (?valid ! (rnd (draws w) mod length ?valid)), w\<lparr>draws := Suc (draws w)\<rparr>)"
    using ne by (simp add: pick_subnet_def Let_def)
  with m show ?thesis
    by blast
qed

text \<open>
  C7, as stated, fails: with \<open>SUBNET_IDS\<close> set to a single comma the pool is two empty
  entries, the up-front check passes, and \<open>pick_subnet\<close> raises \<open>ScaleError\<close>: the request
  is recorded with \<open>retry = True\<close> and its id is in \<open>batchItemFailures\<close>.
\<close>

theorem blank_subnet_pool_counterexample:
  "p4d_handler cfg_p4d_blank (scripted_ec2 [Inr ''i-0001''] (Inr []) []) rnd0
     (batch [msg ''m1'']) w0 =
     (Inr \<lparr>statusCode = 200,
           response_body =
             \<lparr>successful = [],
              failed = [\<lparr>failed_message_id = ''m1'', error = ''No valid subnets configured'',
                          retry = True\<rparr>]\<rparr>,
           batchItemFailures = [''m1'']\<rparr>,
      w0)"
  by (simp add: fixture_defs p4d_defs dict_get_def)

text \<open>
  C7, amended: when every entry of the configured subnet pool is the empty string,
  \<open>pick_subnet\<close> raises \<open>ScaleError\<close> and never returns a subnet. If the pool is empty or a
  single empty entry, the handler raises \<open>ValueError\<close> before any record is processed.
  Otherwise (two or more empty entries) the handler makes no provider call and records no
  success: a record whose payload \<open>parse_sqs_message\<close> accepts reaches \<open>pick_subnet\<close> and
  gets a failed outcome with \<open>retry = True\<close>, its id in \<open>batchItemFailures\<close>; a record
  whose payload is JSON but not an object fails in \<open>parse_sqs_message\<close>, before subnet
  selection, and gets a failed outcome with \<open>retry = False\<close>. An entry that is not the
  empty string, be it only whitespace, counts as a subnet: when the pool has one,
  \<open>pick_subnet\<close> returns one of the non-empty entries.
\<close>

theorem blank_subnet_pool:
  "((\<forall>s\<in>set (SUBNET_IDS cfg). s = []) \<longrightarrow>
      pick_subnet cfg rnd w = (Inl (ScaleError ''No valid subnets configured''), w)
      \<and> (\<forall>j. parse_sqs_message record = Inr j \<longrightarrow>
            p4d_process_record cfg ec2 rnd (results, w) record =
              (results\<lparr>failed := failed results @
                  [\<lparr>failed_message_id = record_message_id record,
                    error = ''No valid subnets configured'', retry = True\<rparr>]\<rparr>, w))
      \<and> (\<forall>e. parse_sqs_message record = Inl e \<longrightarrow>
            p4d_process_record cfg ec2 rnd (results, w) record =
              (results\<lparr>failed := failed results @
                  [\<lparr>failed_message_id = record_message_id record,
                    error = exn_str e, retry = False\<rparr>]\<rparr>, w))
      \<and> (\<not> falsy_str (LAUNCH_TEMPLATE_NAME cfg) \<and>
           (SUBNET_IDS cfg = [] \<or> SUBNET_IDS cfg = [[]]) \<longrightarrow>
             p4d_handler cfg ec2 rnd ev w =
               (Inl (ValueError ''SUBNET_IDS environment variable is required''), w))
      \<and> (\<not> falsy_str (LAUNCH_TEMPLATE_NAME cfg) \<and>
           SUBNET_IDS cfg \<noteq> [] \<and> SUBNET_IDS cfg \<noteq> [[]] \<longrightarrow>
             p4d_handler cfg ec2 rnd ev w =
               (Inr \<lparr>statusCode = 200,
                     response_body =
                       \<lparr>successful = [],
                        failed =
                          map (\<lambda>r. record_failure (record_message_id r)
                                 (case parse_sqs_message r of
                                    Inl e \<Rightarrow> e
                                  | Inr job_info \<Rightarrow>
                                      ScaleError ''No valid subnets configured''))
                            (event_records ev)\<rparr>,
                     batchItemFailures =
                       map record_message_id
                         (filter (\<lambda>r. \<not> isl (parse_sqs_message r)) (event_records ev))\<rparr>,
                w)))
   \<and> ((\<exists>s\<in>set (SUBNET_IDS cfg). s \<noteq> []) \<longrightarrow>
        (\<exists>s. pick_subnet cfg rnd w = (Inr s, w\<lparr>draws := Suc (draws w)\<rparr>) \<and>
              s \<in> set (SUBNET_IDS cfg) \<and> s \<noteq> []))"
proof (intro conjI impI allI)
  assume b: "\<forall>s\<in>set (SUBNET_IDS cfg). s = []"
  show "pick_subnet cfg rnd w = (Inl (ScaleError ''No valid subnets configured''), w)"
    using b by (rule pick_subnet_blank)
  {
    fix j
    assume "parse_sqs_message record = Inr j"
    then show "p4d_process_record cfg ec2 rnd (results, w) record =
              (results\<lparr>failed := failed results @
                  [\<lparr>failed_message_id = record_message_id record,
                    error = ''No valid subnets configured'', retry = True\<rparr>]\<rparr>, w)"
      by (simp add: p4d_process_record_blank [OF b])
  }
  {
    fix e
    assume p: "parse_sqs_message record = Inl e"
    then obtain m where "e = AttributeError m"
      using parse_sqs_message_Inl by blast
    with p show "p4d_process_record cfg ec2 rnd (results, w) record =
              (results\<lparr>failed := failed results @
                  [\<lparr>failed_message_id = record_message_id record,
                    error = exn_str e, retry = False\<rparr>]\<rparr>, w)"
      by (simp add: p4d_process_record_blank [OF b])
  }
  {
    assume "\<not> falsy_str (LAUNCH_TEMPLATE_NAME cfg) \<and>
            (SUBNET_IDS cfg = [] \<or> SUBNET_IDS cfg = [[]])"
    then show "p4d_handler cfg ec2 rnd ev w =
                (Inl (ValueError ''SUBNET_IDS environment variable is required''), w)"
      by (auto simp: p4d_handler_def)
  }
  {
    assume v: "\<not> falsy_str (LAUNCH_TEMPLATE_NAME cfg) \<and>
            SUBNET_IDS cfg \<noteq> [] \<and> SUBNET_IDS cfg \<noteq> [[]]"
    have f: "foldl (p4d_process_record cfg ec2 rnd) (\<lparr>successful = [], failed = []\<rparr>, w)
               (event_records ev) =
             (\<lparr>successful = [],
               failed = map (\<lambda>r. record_failure (record_message_id r)
                                 (case parse_sqs_message r of
                                    Inl e \<Rightarrow> e
                                  | Inr job_info \<Rightarrow>
                                      ScaleError ''No valid subnets configured''))
                          (event_records ev)\<rparr>, w)"
      using p4d_foldl_blank [OF b, of ec2 rnd "\<lparr>successful = [], failed = []\<rparr>" w
              "event_records ev"]
      by simp
    show "p4d_handler cfg ec2 rnd ev w =
               (Inr \<lparr>statusCode = 200,
                     response_body =
                       \<lparr>successful = [],
                        failed =
                          map (\<lambda>r. record_failure (record_message_id r)
                                 (case parse_sqs_message r of
                                    Inl e \<Rightarrow> e
                                  | Inr job_info \<Rightarrow>
                                      ScaleError ''No valid subnets configured''))
                            (event_records ev)\<rparr>,
                     batchItemFailures =
                       map record_message_id
                         (filter (\<lambda>r. \<not> isl (parse_sqs_message r)) (event_records ev))\<rparr>,
                w)"
      using v by (simp add: p4d_handler_valid f batch_item_failures_blank)
  }
next
  assume "\<exists>s\<in>set (SUBNET_IDS cfg). s \<noteq> []"
  then show "\<exists>s. pick_subnet cfg rnd w = (Inr s, w\<lparr>draws := Suc (draws w)\<rparr>) \<and>
              s \<in> set (SUBNET_IDS cfg) \<and> s \<noteq> []"
    by (rule pick_subnet_nonempty)
qed

theorem blank_subnet_pool_witness:
  "SUBNET_IDS cfg_p4d_blank = [[], []] \<and>
   pick_subnet cfg_p4d_blank rnd0 w0 = (Inl (ScaleError ''No valid subnets configured''), w0) \<and>
   p4d_process_record cfg_p4d_blank (scripted_ec2 [] (Inr []) []) rnd0
     (\<lparr>successful = [], failed = []\<rparr>, w0) (msg ''m1'') =
     (\<lparr>successful = [],
       failed = [\<lparr>failed_message_id = ''m1'', error = ''No valid subnets configured'',
                   retry = True\<rparr>]\<rparr>, w0) \<and>
   p4d_process_record cfg_p4d_blank (scripted_ec2 [] (Inr []) []) rnd0
     (\<lparr>successful = [], failed = []\<rparr>, w0) \<lparr>messageId = Some ''m2'', body = Some JsonOther\<rparr> =
     (\<lparr>successful = [],
       failed = [\<lparr>failed_message_id = ''m2'', error = ''object has no attribute get'',
                   retry = False\<rparr>]\<rparr>, w0) \<and>
   p4d_handler (cfg_p4d_blank\<lparr>SUBNET_IDS := [[]]\<rparr>) (scripted_ec2 [] (Inr []) []) rnd0
     (batch [msg ''m1'', msg ''m2'']) w0 =
     (Inl (ValueError ''SUBNET_IDS environment variable is required''), w0) \<and>
   batchItemFailures (projr (fst (p4d_handler cfg_p4d_blank (scripted_ec2 [] (Inr []) []) rnd0
                                    (batch [msg ''m1'', msg ''m2'']) w0))) = [''m1'', ''m2''] \<and>
   pick_subnet (cfg_p4d_blank\<lparr>SUBNET_IDS := ['' '']\<rparr>) rnd0 w0 =
     (Inr '' '', w0\<lparr>draws := Suc (draws w0)\<rparr>)"
proof -
  let ?ec2 = "scripted_ec2 [] (Inr []) []"
  let ?ev = "batch [msg ''m1'', msg ''m2'']"
  let ?other = "\<lparr>messageId = Some ''m2'', body = Some JsonOther\<rparr>"
  let ?J = "[(''workflow_job_id'', PInt 42), (''repository'', PStr ''flashinfer-ai/flashinfer''),
             (''event_type'', PStr ''workflow_job''), (''installation_id'', PInt 7)]"
  let ?res = "\<lparr>successful = [], failed = []\<rparr> :: p4d_success results"
  have e: "SUBNET_IDS cfg_p4d_blank = [[], []]"
    by (simp add: fixture_defs)
  have b: "\<forall>s\<in>set (SUBNET_IDS cfg_p4d_blank). s = []"
    by (simp add: e)
  have b1: "\<forall>s\<in>set (SUBNET_IDS (cfg_p4d_blank\<lparr>SUBNET_IDS := [[]]\<rparr>)). s = []"
    by simp
  have n: "\<exists>s\<in>set (SUBNET_IDS (cfg_p4d_blank\<lparr>SUBNET_IDS := ['' '']\<rparr>)). s \<noteq> []"
    by simp
  have v: "\<not> falsy_str (LAUNCH_TEMPLATE_NAME cfg_p4d_blank) \<and>
           SUBNET_IDS cfg_p4d_blank \<noteq> [] \<and> SUBNET_IDS cfg_p4d_blank \<noteq> [[]]"
    by (simp add: fixture_defs)
  have v1: "\<not> falsy_str (LAUNCH_TEMPLATE_NAME (cfg_p4d_blank\<lparr>SUBNET_IDS := [[]]\<rparr>)) \<and>
            (SUBNET_IDS (cfg_p4d_blank\<lparr>SUBNET_IDS := [[]]\<rparr>) = [] \<or>
             SUBNET_IDS (cfg_p4d_blank\<lparr>SUBNET_IDS := [[]]\<rparr>) = [[]])"
    by (simp add: fixture_defs)
  have pj: "parse_sqs_message (msg ''m1'') = Inr ?J"
    by (simp add: parse_sqs_message_def parse_sqs_message_try_def msg_def job_body_def
          dict_get_def)
  have po: "parse_sqs_message ?other = Inl (AttributeError ''object has no attribute get'')"
    by (simp add: parse_sqs_message_def parse_sqs_message_try_def)
  have p: "filter (\<lambda>r. \<not> isl (parse_sqs_message r)) (event_records ?ev) =
             [msg ''m1'', msg ''m2'']"
    by (simp add: event_records_def batch_def msg_def job_body_def parse_sqs_message_def
          parse_sqs_message_try_def)
  have m: "map record_message_id [msg ''m1'', msg ''m2''] = [''m1'', ''m2'']"
    by (simp add: record_message_id_def msg_def)
  have m1: "record_message_id (msg ''m1'') = ''m1''"
    by (simp add: record_message_id_def msg_def)
  have m2: "record_message_id ?other = ''m2''"
    by (simp add: record_message_id_def)
  note t = blank_subnet_pool [of cfg_p4d_blank rnd0 w0 "msg ''m1''" ?ec2 ?res ?ev,
                              THEN conjunct1, THEN mp, OF b]
  note to = blank_subnet_pool [of cfg_p4d_blank rnd0 w0 ?other ?ec2 ?res ?ev,
                               THEN conjunct1, THEN mp, OF b]
  note t1 = blank_subnet_pool [of "cfg_p4d_blank\<lparr>SUBNET_IDS := [[]]\<rparr>" rnd0 w0 "msg ''m1''"
                                  ?ec2 ?res ?ev, THEN conjunct1, THEN mp, OF b1]
  note tn = blank_subnet_pool [of "cfg_p4d_blank\<lparr>SUBNET_IDS := ['' '']\<rparr>" rnd0 w0 "msg ''m1''"
                                  ?ec2 ?res ?ev, THEN conjunct2, THEN mp, OF n]
  have c1: "pick_subnet cfg_p4d_blank rnd0 w0 =
              (Inl (ScaleError ''No valid subnets configured''), w0)"
    using t by (rule conjunct1)
  have c2: "p4d_process_record cfg_p4d_blank ?ec2 rnd0 (?res, w0) (msg ''m1'') =
     (\<lparr>successful = [],
       failed = [\<lparr>failed_message_id = ''m1'', error = ''No valid subnets configured'',
                   retry = True\<rparr>]\<rparr>, w0)"
    using t pj m1 by simp
  have c3: "p4d_process_record cfg_p4d_blank ?ec2 rnd0 (?res, w0) ?other =
     (\<lparr>successful = [],
       failed = [\<lparr>failed_message_id = ''m2'', error = ''object has no attribute get'',
                   retry = False\<rparr>]\<rparr>, w0)"
    using to po m2 by simp
  have c4: "p4d_handler (cfg_p4d_blank\<lparr>SUBNET_IDS := [[]]\<rparr>) ?ec2 rnd0 ?ev w0 =
     (Inl (ValueError ''SUBNET_IDS environment variable is required''), w0)"
    using t1 v1 by simp
  have c5: "batchItemFailures (projr (fst (p4d_handler cfg_p4d_blank ?ec2 rnd0 ?ev w0))) =
              [''m1'', ''m2'']"
    using t v p m by simp
  have c6: "pick_subnet (cfg_p4d_blank\<lparr>SUBNET_IDS := ['' '']\<rparr>) rnd0 w0 =
              (Inr '' '', w0\<lparr>draws := Suc (draws w0)\<rparr>)"
    using tn by auto
  from e c1 c2 c3 c4 c5 c6 show ?thesis
    by (intro conjI)
qed

section \<open>C8: a message with a malformed payload\<close>





section \<open>C9: the tags of a launch attempt\<close>

lemma launch_instance_into_cb_calls:
  "snd (launch_instance_into_cb cfg ec2 cb subnet_id job_info w) =
     w\<lparr>calls := calls w @ [RunInstances (cb_request cfg cb subnet_id job_info)]\<rparr>"
  by (simp add: launch_instance_into_cb_def call_run_instances_def
        split: sum.splits exn.splits api_error.splits)

lemma py_str_42: "py_str (PInt 42) = ''42''"
  by code_simp

text \<open>
  C9, as stated, fails for the reservation-bound path: the tags of a launch into a
  capacity block have no \<open>ghr:market_type\<close> entry.
\<close>

theorem launch_tags_counterexample:
  "map_of (req_InstanceTags
             (cb_request cfg_cb \<lparr>cb_id = ''cr-1'', cb_az = ''us-west-2a'', cb_available = 2\<rparr>
                ''subnet-a'' []))
     ''ghr:market_type'' = None"
  by (simp add: cb_request_def cb_tags_def dict_get_def)

text \<open>
  C9, amended: the tags of every spot and on-demand launch attempt (on the instance and
  on the volume alike) include the fixed identity block (application name, creator,
  environment, management marker), the repository and workflow-job-id tags whenever the
  job metadata holds a truthy value for them (the repository always does when the payload
  parsed as an object), and a \<open>ghr:market_type\<close> tag naming the channel, \<open>spot\<close> or
  \<open>on-demand\<close>. The tags of a reservation-bound launch attempt include the identity block
  and the same job tags, but no \<open>ghr:market_type\<close> tag.
\<close>

theorem launch_tags:
  "set [(''Name'', PStr (ENVIRONMENT cfg @ ''-p4d-action-runner'')),
        (''ghr:Application'', PStr ''github-action-runner''),
        (''ghr:created_by'', PStr ''p4d-scale-up-lambda''),
        (''ghr:environment'', PStr (ENVIRONMENT cfg)),
        (''ManagedBy'', PStr ''Terraform''),
        (''ghr:market_type'', PStr mt)] \<subseteq> set (build_tags cfg j mt)
   \<and> (truthy (dict_get j ''repository'') \<longrightarrow>
        (''ghr:repository'', dict_get j ''repository'') \<in> set (build_tags cfg j mt) \<and>
        (''ghr:repository'', dict_get j ''repository'') \<in> set (cb_tags cfg j))
   \<and> (truthy (dict_get j ''workflow_job_id'') \<longrightarrow>
        (''ghr:workflow_job_id'', PStr (py_str (dict_get j ''workflow_job_id'')))
          \<in> set (build_tags cfg j mt) \<and>
        (''ghr:workflow_job_id'', PStr (py_str (dict_get j ''workflow_job_id'')))
          \<in> set (cb_tags cfg j))
   \<and> (body record = Some (JsonObject b) \<and> parse_sqs_message record = Inr j \<longrightarrow>
        truthy (dict_get j ''repository'') \<and>
        dict_get j ''workflow_job_id'' = dict_get b ''id'')
   \<and> req_InstanceTags (spot_request cfg s j) = build_tags cfg j ''spot''
   \<and> req_VolumeTags (spot_request cfg s j) = build_tags cfg j ''spot''
   \<and> map_option MarketType (req_InstanceMarketOptions (spot_request cfg s j)) = Some ''spot''
   \<and> snd (launch_spot_instance cfg ec2 s j w) =
        w\<lparr>calls := calls w @ [RunInstances (spot_request cfg s j)]\<rparr>
   \<and> req_InstanceTags (ondemand_request cfg s j) = build_tags cfg j ''on-demand''
   \<and> req_VolumeTags (ondemand_request cfg s j) = build_tags cfg j ''on-demand''
   \<and> req_InstanceMarketOptions (ondemand_request cfg s j) = None
   \<and> snd (launch_ondemand_instance cfg ec2 s j w) =
        w\<lparr>calls := calls w @ [RunInstances (ondemand_request cfg s j)]\<rparr>
   \<and> set [(''Name'', PStr (ENVIRONMENT cfg @ ''-cb-action-runner'')),
           (''ghr:Application'', PStr ''github-action-runner''),
           (''ghr:created_by'', PStr ''cb-scale-up-lambda''),
           (''ghr:environment'', PStr (ENVIRONMENT cfg)),
           (''ManagedBy'', PStr ''Terraform'')] \<subseteq> set (cb_tags cfg j)
   \<and> map_of (cb_tags cfg j) ''ghr:market_type'' = None
   \<and> req_InstanceTags (cb_request cfg cb s j) = cb_tags cfg j
   \<and> req_VolumeTags (cb_request cfg cb s j) = cb_tags cfg j
   \<and> map_option MarketType (req_InstanceMarketOptions (cb_request cfg cb s j)) =
        Some ''capacity-block''
   \<and> snd (launch_instance_into_cb cfg ec2 cb s j w) =
        w\<lparr>calls := calls w @ [RunInstances (cb_request cfg cb s j)]\<rparr>"
proof -
  have p4d: "set [(''Name'', PStr (ENVIRONMENT cfg @ ''-p4d-action-runner'')),
        (''ghr:Application'', PStr ''github-action-runner''),
        (''ghr:created_by'', PStr ''p4d-scale-up-lambda''),
        (''ghr:environment'', PStr (ENVIRONMENT cfg)),
        (''ManagedBy'', PStr ''Terraform''),
        (''ghr:market_type'', PStr mt)] \<subseteq> set (build_tags cfg j mt)"
    by (simp add: build_tags_def)
  have repo: "truthy (dict_get j ''repository'') \<longrightarrow>
        (''ghr:repository'', dict_get j ''repository'') \<in> set (build_tags cfg j mt) \<and>
        (''ghr:repository'', dict_get j ''repository'') \<in> set (cb_tags cfg j)"
    by (simp add: build_tags_def cb_tags_def)
  have job: "truthy (dict_get j ''workflow_job_id'') \<longrightarrow>
        (''ghr:workflow_job_id'', PStr (py_str (dict_get j ''workflow_job_id'')))
          \<in> set (build_tags cfg j mt) \<and>
        (''ghr:workflow_job_id'', PStr (py_str (dict_get j ''workflow_job_id'')))
          \<in> set (cb_tags cfg j)"
    by (simp add: build_tags_def cb_tags_def)
  have parsed: "body record = Some (JsonObject b) \<and> parse_sqs_message record = Inr j \<longrightarrow>
        truthy (dict_get j ''repository'') \<and>
        dict_get j ''workflow_job_id'' = dict_get b ''id''"
    by (auto simp: parse_sqs_message_def parse_sqs_message_try_def dict_get_def)
  have spot: "req_InstanceTags (spot_request cfg s j) = build_tags cfg j ''spot''
     \<and> req_VolumeTags (spot_request cfg s j) = build_tags cfg j ''spot''
     \<and> map_option MarketType (req_InstanceMarketOptions (spot_request cfg s j)) = Some ''spot''
     \<and> snd (launch_spot_instance cfg ec2 s j w) =
          w\<lparr>calls := calls w @ [RunInstances (spot_request cfg s j)]\<rparr>"
    by (simp add: launch_spot_instance_eq) (simp add: spot_request_def)
  have ondemand: "req_InstanceTags (ondemand_request cfg s j) = build_tags cfg j ''on-demand''
     \<and> req_VolumeTags (ondemand_request cfg s j) = build_tags cfg j ''on-demand''
     \<and> req_InstanceMarketOptions (ondemand_request cfg s j) = None
     \<and> snd (launch_ondemand_instance cfg ec2 s j w) =
          w\<lparr>calls := calls w @ [RunInstances (ondemand_request cfg s j)]\<rparr>"
    by (simp add: launch_ondemand_instance_eq) (simp add: ondemand_request_def)
  have cb1: "set [(''Name'', PStr (ENVIRONMENT cfg @ ''-cb-action-runner'')),
           (''ghr:Application'', PStr ''github-action-runner''),
           (''ghr:created_by'', PStr ''cb-scale-up-lambda''),
           (''ghr:environment'', PStr (ENVIRONMENT cfg)),
           (''ManagedBy'', PStr ''Terraform'')] \<subseteq> set (cb_tags cfg j)"
    by (simp add: cb_tags_def)
  have cb2: "map_of (cb_tags cfg j) ''ghr:market_type'' = None"
    by (simp add: cb_tags_def)
  have cb3: "req_InstanceTags (cb_request cfg cb s j) = cb_tags cfg j
     \<and> req_VolumeTags (cb_request cfg cb s j) = cb_tags cfg j
     \<and> map_option MarketType (req_InstanceMarketOptions (cb_request cfg cb s j)) =
          Some ''capacity-block''"
    by (simp add: cb_request_def)
  note cb4 = launch_instance_into_cb_calls [of cfg ec2 cb s j w]
  from p4d repo job parsed spot ondemand cb1 cb2 cb3 cb4 show ?thesis
    by blast
qed

theorem launch_tags_witness:
  "parse_sqs_message (msg ''m1'') = Inr [(''workflow_job_id'', PInt 42), (''repository'', PStr ''flashinfer-ai/flashinfer''),
     (''event_type'', PStr ''workflow_job''), (''installation_id'', PInt 7)]
   \<and> (''ghr:repository'', PStr ''flashinfer-ai/flashinfer'')
        \<in> set (req_InstanceTags (spot_request cfg_p4d ''subnet-a'' [(''workflow_job_id'', PInt 42), (''repository'', PStr ''flashinfer-ai/flashinfer''),
     (''event_type'', PStr ''workflow_job''), (''installation_id'', PInt 7)]))
   \<and> (''ghr:workflow_job_id'', PStr ''42'')
        \<in> set (req_VolumeTags (ondemand_request cfg_p4d ''subnet-a'' [(''workflow_job_id'', PInt 42), (''repository'', PStr ''flashinfer-ai/flashinfer''),
     (''event_type'', PStr ''workflow_job''), (''installation_id'', PInt 7)]))
   \<and> (''ghr:market_type'', PStr ''on-demand'')
        \<in> set (req_InstanceTags (ondemand_request cfg_p4d ''subnet-a'' [(''workflow_job_id'', PInt 42), (''repository'', PStr ''flashinfer-ai/flashinfer''),
     (''event_type'', PStr ''workflow_job''), (''installation_id'', PInt 7)]))
   \<and> (''ghr:repository'', PStr ''flashinfer-ai/flashinfer'')
        \<in> set (req_InstanceTags
                 (cb_request cfg_p4d \<lparr>cb_id = ''cr-1'', cb_az = ''us-west-2a'', cb_available = 2\<rparr>
                    ''subnet-a'' [(''workflow_job_id'', PInt 42), (''repository'', PStr ''flashinfer-ai/flashinfer''),
     (''event_type'', PStr ''workflow_job''), (''installation_id'', PInt 7)]))"
proof -
  let ?J = "[(''workflow_job_id'', PInt 42), (''repository'', PStr ''flashinfer-ai/flashinfer''),
     (''event_type'', PStr ''workflow_job''), (''installation_id'', PInt 7)]"
  let ?B = "[(''id'', PInt 42), (''repositoryOwner'', PStr ''flashinfer-ai''),
     (''repositoryName'', PStr ''flashinfer''), (''eventType'', PStr ''workflow_job''),
     (''installationId'', PInt 7)]"
  have h0: "body (msg ''m1'') = Some (JsonObject ?B) \<and> parse_sqs_message (msg ''m1'') = Inr ?J"
    by (simp add: parse_sqs_message_def parse_sqs_message_try_def msg_def job_body_def
          dict_get_def)
  have h1: "truthy (dict_get ?J ''repository'')"
    by (simp add: dict_get_def)
  have h2: "truthy (dict_get ?J ''workflow_job_id'')"
    by (simp add: dict_get_def)
  have v1: "dict_get ?J ''repository'' = PStr ''flashinfer-ai/flashinfer''"
    by (simp add: dict_get_def)
  have v2: "py_str (dict_get ?J ''workflow_job_id'') = ''42''"
    by (simp add: dict_get_def py_str_42 del: py_str.simps)
  note t1 = launch_tags [of cfg_p4d "''spot''" ?J "msg ''m1''" ?B "''subnet-a''"
                            "scripted_ec2 [] (Inr []) []" w0
                            "\<lparr>cb_id = ''cr-1'', cb_az = ''us-west-2a'', cb_available = 2\<rparr>"]
  note t2 = launch_tags [of cfg_p4d "''on-demand''" ?J "msg ''m1''" ?B "''subnet-a''"
                            "scripted_ec2 [] (Inr []) []" w0
                            "\<lparr>cb_id = ''cr-1'', cb_az = ''us-west-2a'', cb_available = 2\<rparr>"]
  from t1 h0 h1 v1 have a: "(''ghr:repository'', PStr ''flashinfer-ai/flashinfer'')
        \<in> set (req_InstanceTags (spot_request cfg_p4d ''subnet-a'' ?J))"
    by simp
  from t2 h2 v2 have b: "(''ghr:workflow_job_id'', PStr ''42'')
        \<in> set (req_VolumeTags (ondemand_request cfg_p4d ''subnet-a'' ?J))"
    by simp
  from t2 have c: "(''ghr:market_type'', PStr ''on-demand'')
        \<in> set (req_InstanceTags (ondemand_request cfg_p4d ''subnet-a'' ?J))"
    by simp
  from t1 h1 v1 have d: "(''ghr:repository'', PStr ''flashinfer-ai/flashinfer'')
        \<in> set (req_InstanceTags
                 (cb_request cfg_p4d \<lparr>cb_id = ''cr-1'', cb_az = ''us-west-2a'', cb_available = 2\<rparr>
                    ''subnet-a'' ?J))"
    by simp
  from h0 a b c d show ?thesis
    by blast
qed

section \<open>C10: the read-only status path\<close>

lemma cbm_handler_status:
  assumes "action ev = None \<or> action ev = Some ''check'' \<or> action ev = Some ''status''"
  shows "active_capacity_blocks (fst (cbm_handler d ec2 ev w)) =
           Some (fst (get_active_capacity_blocks ec2 (resolve_instance_type d ev)
                        (ev_availability_zone ev) w))
       \<and> has_active_cb (fst (cbm_handler d ec2 ev w)) =
           Some (fst (get_active_capacity_blocks ec2 (resolve_instance_type d ev)
                        (ev_availability_zone ev) w) \<noteq> [])"
  using assms by (auto simp: cbm_handler_def Let_def)

lemma end_date_cb_entry_of [simp]: "end_date (cb_entry_of cr) = map_option isoformat (EndDate cr)"
  by (simp add: cb_entry_of_def)

lemma reservation_id_cb_entry_of [simp]: "reservation_id (cb_entry_of cr) = CapacityReservationId cr"
  by (simp add: cb_entry_of_def)

text \<open>
  C10: for the actions \<open>check\<close> and \<open>status\<close> (the default), the handler lists exactly
  the reservations of the provider's answer that carry an \<open>EndDate\<close>, in the answer's
  order; a reservation without one is left out. \<open>has_active_cb\<close> is true exactly when that
  list is non-empty, whatever the state or the available capacity of the listed
  reservations: with an answer holding one \<open>pending\<close> reservation with an end date and no
  available capacity, and one \<open>active\<close> reservation with capacity but no end date, the
  list is the pending one alone and the flag is true.
\<close>

theorem status_lists_reservations_with_end_date:
  "((action ev = None \<or> action ev = Some ''check'' \<or> action ev = Some ''status'') \<and>
    describe_capacity_reservations ec2 (calls w)
      (manager_filters (resolve_instance_type d ev) (ev_availability_zone ev)) = Inr (Some crs)
    \<longrightarrow>
     (\<exists>entries. active_capacity_blocks (fst (cbm_handler d ec2 ev w)) = Some entries \<and>
        entries = map cb_entry_of (filter (\<lambda>cr. EndDate cr \<noteq> None) crs) \<and>
        map reservation_id entries =
          map CapacityReservationId (filter (\<lambda>cr. EndDate cr \<noteq> None) crs) \<and>
        list_all (\<lambda>e. end_date e \<noteq> None) entries \<and>
        has_active_cb (fst (cbm_handler d ec2 ev w)) = Some (entries \<noteq> []) \<and>
        has_active_cb (fst (cbm_handler d ec2 ev w)) =
          Some (list_ex (\<lambda>cr. EndDate cr \<noteq> None) crs)))
   \<and>
   (active_capacity_blocks
      (fst (cbm_handler ''p6-b200.48xlarge''
              (scripted_ec2 []
                 (Inr [reservation ''cr-0'' ''pending'' 0 (Some (Datetime ''2026-01-01T00:00:00'')),
                       reservation ''cr-1'' ''active'' 2 None]) [])
              \<lparr>action = None, labels = None, ev_instance_type = Some ''p5.48xlarge'',
                ev_availability_zone = None\<rparr> w0)) =
      Some [\<lparr>reservation_id = ''cr-0'', entry_state = ''pending'',
              entry_instance_type = ''p5.48xlarge'', availability_zone = ''us-west-2a'',
              available_capacity = 0, total_capacity = 4, start_date = None,
              end_date = Some ''2026-01-01T00:00:00''\<rparr>]
    \<and> has_active_cb
      (fst (cbm_handler ''p6-b200.48xlarge''
              (scripted_ec2 []
                 (Inr [reservation ''cr-0'' ''pending'' 0 (Some (Datetime ''2026-01-01T00:00:00'')),
                       reservation ''cr-1'' ''active'' 2 None]) [])
              \<lparr>action = None, labels = None, ev_instance_type = Some ''p5.48xlarge'',
                ev_availability_zone = None\<rparr> w0)) = Some True)"
proof (intro conjI impI)
  assume a: "(action ev = None \<or> action ev = Some ''check'' \<or> action ev = Some ''status'') \<and>
    describe_capacity_reservations ec2 (calls w)
      (manager_filters (resolve_instance_type d ev) (ev_availability_zone ev)) = Inr (Some crs)"
  let ?entries = "map cb_entry_of (filter (\<lambda>cr. EndDate cr \<noteq> None) crs)"
  have g: "fst (get_active_capacity_blocks ec2 (resolve_instance_type d ev)
                  (ev_availability_zone ev) w) = ?entries"
    using a by (simp add: get_active_capacity_blocks_def)
  have l: "active_capacity_blocks (fst (cbm_handler d ec2 ev w)) = Some ?entries"
    and f: "has_active_cb (fst (cbm_handler d ec2 ev w)) = Some (?entries \<noteq> [])"
    using a cbm_handler_status [of ev d ec2 w] g by simp_all
  have i: "map reservation_id ?entries =
             map CapacityReservationId (filter (\<lambda>cr. EndDate cr \<noteq> None) crs)"
    by simp
  have e: "list_all (\<lambda>e. end_date e \<noteq> None) ?entries"
    by (simp add: list_all_iff)
  have x: "(?entries \<noteq> []) = list_ex (\<lambda>cr. EndDate cr \<noteq> None) crs"
    by (simp add: list_ex_iff filter_empty_conv)
  show "\<exists>entries. active_capacity_blocks (fst (cbm_handler d ec2 ev w)) = Some entries \<and>
        entries = map cb_entry_of (filter (\<lambda>cr. EndDate cr \<noteq> None) crs) \<and>
        map reservation_id entries =
          map CapacityReservationId (filter (\<lambda>cr. EndDate cr \<noteq> None) crs) \<and>
        list_all (\<lambda>e. end_date e \<noteq> None) entries \<and>
        has_active_cb (fst (cbm_handler d ec2 ev w)) = Some (entries \<noteq> []) \<and>
        has_active_cb (fst (cbm_handler d ec2 ev w)) =
          Some (list_ex (\<lambda>cr. EndDate cr \<noteq> None) crs)"
    using l f i e x by (intro exI [of _ ?entries]) simp
next
  show "active_capacity_blocks
      (fst (cbm_handler ''p6-b200.48xlarge''
              (scripted_ec2 []
                 (Inr [reservation ''cr-0'' ''pending'' 0 (Some (Datetime ''2026-01-01T00:00:00'')),
                       reservation ''cr-1'' ''active'' 2 None]) [])
              \<lparr>action = None, labels = None, ev_instance_type = Some ''p5.48xlarge'',
                ev_availability_zone = None\<rparr> w0)) =
      Some [\<lparr>reservation_id = ''cr-0'', entry_state = ''pending'',
              entry_instance_type = ''p5.48xlarge'', availability_zone = ''us-west-2a'',
              available_capacity = 0, total_capacity = 4, start_date = None,
              end_date = Some ''2026-01-01T00:00:00''\<rparr>]"
    by (simp add: cbm_handler_def get_active_capacity_blocks_def resolve_instance_type_def
          manager_filters_def cb_entry_of_def available_count_def fixture_defs Let_def)
next
  show "has_active_cb
      (fst (cbm_handler ''p6-b200.48xlarge''
              (scripted_ec2 []
                 (Inr [reservation ''cr-0'' ''pending'' 0 (Some (Datetime ''2026-01-01T00:00:00'')),
                       reservation ''cr-1'' ''active'' 2 None]) [])
              \<lparr>action = None, labels = None, ev_instance_type = Some ''p5.48xlarge'',
                ev_availability_zone = None\<rparr> w0)) = Some True"
    by (simp add: cbm_handler_def get_active_capacity_blocks_def resolve_instance_type_def
          manager_filters_def cb_entry_of_def available_count_def fixture_defs Let_def)
qed

theorem status_lists_reservations_with_end_date_witness:
  "describe_capacity_reservations
     (scripted_ec2 []
        (Inr [reservation ''cr-0'' ''pending'' 0 (Some (Datetime ''2026-01-01T00:00:00'')),
              reservation ''cr-1'' ''active'' 2 None,
              reservation ''cr-2'' ''expired'' 2 (Some (Datetime ''2025-01-01T00:00:00''))]) [])
     (calls w0)
     (manager_filters
        (resolve_instance_type ''p6-b200.48xlarge''
           \<lparr>action = Some ''check'', labels = None, ev_instance_type = Some ''p5.48xlarge'',
             ev_availability_zone = None\<rparr>) None) =
     Inr (Some [reservation ''cr-0'' ''pending'' 0 (Some (Datetime ''2026-01-01T00:00:00'')),
                reservation ''cr-1'' ''active'' 2 None])
   \<and> (\<exists>entries.
         active_capacity_blocks
           (fst (cbm_handler ''p6-b200.48xlarge''
                   (scripted_ec2 []
                      (Inr [reservation ''cr-0'' ''pending'' 0
                              (Some (Datetime ''2026-01-01T00:00:00'')),
                            reservation ''cr-1'' ''active'' 2 None,
                            reservation ''cr-2'' ''expired'' 2
                              (Some (Datetime ''2025-01-01T00:00:00''))]) [])
                   \<lparr>action = Some ''check'', labels = None,
                     ev_instance_type = Some ''p5.48xlarge'', ev_availability_zone = None\<rparr>
                   w0)) = Some entries \<and>
         map reservation_id entries = [''cr-0''])"
proof -
  let ?ec2 = "scripted_ec2 []
        (Inr [reservation ''cr-0'' ''pending'' 0 (Some (Datetime ''2026-01-01T00:00:00'')),
              reservation ''cr-1'' ''active'' 2 None,
              reservation ''cr-2'' ''expired'' 2 (Some (Datetime ''2025-01-01T00:00:00''))]) []"
  let ?ev = "\<lparr>action = Some ''check'', labels = None, ev_instance_type = Some ''p5.48xlarge'',
              ev_availability_zone = None\<rparr>"
  let ?crs = "[reservation ''cr-0'' ''pending'' 0 (Some (Datetime ''2026-01-01T00:00:00'')),
               reservation ''cr-1'' ''active'' 2 None]"
  have h: "(action ?ev = None \<or> action ?ev = Some ''check'' \<or> action ?ev = Some ''status'') \<and>
           describe_capacity_reservations ?ec2 (calls w0)
             (manager_filters (resolve_instance_type ''p6-b200.48xlarge'' ?ev)
                (ev_availability_zone ?ev)) = Inr (Some ?crs)"
    by (simp add: resolve_instance_type_def manager_filters_def fixture_defs Let_def)
  have i: "map CapacityReservationId (filter (\<lambda>cr. EndDate cr \<noteq> None) ?crs) = [''cr-0'']"
    by (simp add: reservation_def)
  note t = status_lists_reservations_with_end_date
             [of ?ev ?ec2 w0 "''p6-b200.48xlarge''" ?crs, THEN conjunct1, THEN mp, OF h]
  from t obtain entries where
    e: "active_capacity_blocks (fst (cbm_handler ''p6-b200.48xlarge'' ?ec2 ?ev w0)) = Some entries"
    and m: "map reservation_id entries =
              map CapacityReservationId (filter (\<lambda>cr. EndDate cr \<noteq> None) ?crs)"
    by (elim exE conjE)
  from m i have m': "map reservation_id entries = [''cr-0'']"
    by (rule trans)
  have x: "\<exists>entries.
         active_capacity_blocks (fst (cbm_handler ''p6-b200.48xlarge'' ?ec2 ?ev w0)) =
           Some entries \<and> map reservation_id entries = [''cr-0'']"
    by (rule exI [of _ entries]) (rule conjI [OF e m'])
  have d: "describe_capacity_reservations ?ec2 (calls w0)
             (manager_filters (resolve_instance_type ''p6-b200.48xlarge'' ?ev) None) =
             Inr (Some ?crs)"
    by (simp add: resolve_instance_type_def manager_filters_def fixture_defs Let_def)
  show ?thesis
    by (rule conjI [OF d x])
qed

end
